theory Spec2Isabelle
  imports Main
begin

section \<open>The kernel-side protocol engine of tslab (src/index.ts)\<close>

text \<open>
  The development embeds the message codec (\<open>ZmqMessage\<close>), the request handler
  (\<open>JupyterHandlerImpl\<close>) and the dispatcher (\<open>ZmqServer\<close>) of \<open>src/index.ts\<close>.

  Conventions of the embedding:
  \<^item> A JavaScript string is a \<open>string\<close>, its UTF-8 text. A \<open>Buffer\<close> is a \<open>buffer\<close>:
    either the UTF-8 encoding of a string, or bytes that are not valid UTF-8, which
    \<open>Buffer.toString()\<close> decodes with loss.
  \<^item> What arrives in a frame is untyped: \<open>JSON.parse\<close> returns an arbitrary value
    \<open>jsval\<close>, also for the header frames, whatever the TypeScript interface
    \<open>HeaderMessage\<close> declares, and reading a property of \<open>null\<close> throws. An object
    is the list of its properties in their order, each key once.
  \<^item> An exception is a value of type \<open>error\<close>; a function that can throw returns
    \<open>error + 'a\<close>, with \<open>Inl\<close> the exception.
  \<^item> What the file takes from Node (\<open>JSON.parse\<close>, \<open>JSON.stringify\<close>, the lossy part
    of \<open>Buffer.toString\<close>, the text of a number, \<open>crypto.createHmac\<close>) is not code of
    the repository; it is a parameter, the record \<open>node\<close>.
  \<^item> A socket send and a console warning are events; a function with such effects
    returns the list of its events in the order they happen. One call of
    \<open>handleShellMessage\<close> is followed from its start to its end.
  \<^item> The counter \<open>execCount\<close> is a JavaScript number: \<open>++\<close> adds one below \<open>2^53\<close>
    and leaves \<open>2^53\<close> as it is.
\<close>

subsection \<open>Values, errors, messages\<close>

datatype jsval =
    JUndefined
  | JNull
  | JBool bool
  | JNum int
  | JStr string
  | JArr "jsval list"
  | JObj "(string \<times> jsval) list"

datatype error = TypeError | SyntaxError | Error string

text \<open>
  \<open>Buffer_from s\<close> is the buffer \<open>Buffer.from(s)\<close>, the UTF-8 encoding of the string
  \<open>s\<close>; \<open>Binary bs\<close> is a buffer whose bytes \<open>bs\<close> are not the UTF-8 encoding of any
  string.
\<close>

datatype buffer = Buffer_from string | Binary string

fun bytes_of :: "buffer \<Rightarrow> string" where
  "bytes_of (Buffer_from s) = s"
| "bytes_of (Binary bs) = bs"

record ConnectionInfo =
  shell_port :: nat
  iopub_port :: nat
  stdin_port :: nat
  control_port :: nat
  hb_port :: nat
  ip :: string
  key :: string
  transport :: string
  signature_scheme :: string
  kernel_name :: string

text \<open>
  The class \<open>ZmqMessage\<close>. The fields \<open>header\<close> and \<open>parent\<close> are declared
  \<open>HeaderMessage\<close> (an object of six strings); they hold whatever \<open>JSON.parse\<close>
  returned.
\<close>

record ZmqMessage =
  identity :: string
  delim :: string
  hmac :: string
  header :: jsval
  parent :: jsval
  metadata :: jsval
  content :: jsval
  extra :: "buffer list"

subsection \<open>The Node library, as a parameter\<close>

text \<open>
  \<open>JSON_parse\<close> is \<open>JSON.parse\<close> (\<open>None\<close>: the text is not valid JSON and
  \<open>JSON.parse\<close> throws a \<open>SyntaxError\<close>); \<open>JSON_stringify\<close> and
  \<open>JSON_stringify_Buffer\<close> are \<open>JSON.stringify\<close> on a value and on a \<open>Buffer\<close>;
  \<open>utf8_decode_lossy\<close> is \<open>Buffer.toString()\<close> on bytes that are not valid UTF-8;
  \<open>Number_toString\<close> is the text of a number; \<open>hmac_sha256_hex key data\<close> is the
  lower-case hexadecimal HMAC-SHA256 tag of the bytes \<open>data\<close> under \<open>key\<close>.
\<close>

record node =
  JSON_parse :: "string \<Rightarrow> jsval option"
  JSON_stringify :: "jsval \<Rightarrow> string"
  JSON_stringify_Buffer :: "buffer \<Rightarrow> string"
  utf8_decode_lossy :: "string \<Rightarrow> string"
  Number_toString :: "int \<Rightarrow> string"
  hmac_sha256_hex :: "string \<Rightarrow> string \<Rightarrow> string"

definition andThen :: "error + 'a \<Rightarrow> ('a \<Rightarrow> error + 'b) \<Rightarrow> error + 'b" where
  "andThen r f = (case r of Inl e \<Rightarrow> Inl e | Inr a \<Rightarrow> f a)"

definition JSON_parse_text :: "node \<Rightarrow> string \<Rightarrow> error + jsval" where
  "JSON_parse_text nd s = (case JSON_parse nd s of None \<Rightarrow> Inl SyntaxError | Some v \<Rightarrow> Inr v)"

fun Buffer_toString :: "node \<Rightarrow> buffer \<Rightarrow> string" where
  "Buffer_toString nd (Buffer_from s) = s"
| "Buffer_toString nd (Binary bs) = utf8_decode_lossy nd bs"

text \<open>
  Reading the property \<open>k\<close> of a value: on \<open>null\<close> and \<open>undefined\<close> it throws a
  \<open>TypeError\<close>; an object without the property, and any other value, gives
  \<open>undefined\<close> (the keys read in this file are \<open>session\<close>, \<open>username\<close>, \<open>msg_type\<close>,
  \<open>msg_id\<close> and \<open>code\<close>, none of them a property of a primitive or of an array).
\<close>

fun get_prop :: "jsval \<Rightarrow> string \<Rightarrow> error + jsval" where
  "get_prop JUndefined k = Inl TypeError"
| "get_prop JNull k = Inl TypeError"
| "get_prop (JObj kvs) k = Inr (case map_of kvs k of Some v \<Rightarrow> v | None \<Rightarrow> JUndefined)"
| "get_prop v k = Inr JUndefined"

text \<open>
  Assigning the property \<open>k\<close> of a value: an object gets the new value in the place of
  the old one, or as a new last property; \<open>null\<close>, \<open>undefined\<close> and (in strict mode,
  which a compiled module is in) a primitive throw a \<open>TypeError\<close>; an array keeps its
  elements. In this file the value assigned to is always the header \<open>createReply\<close>
  has just built, an object.
\<close>

fun assign :: "string \<Rightarrow> jsval \<Rightarrow> (string \<times> jsval) list \<Rightarrow> (string \<times> jsval) list" where
  "assign k v [] = [(k, v)]"
| "assign k v (p # ps) = (if fst p = k then (k, v) # ps else p # assign k v ps)"

fun set_prop :: "jsval \<Rightarrow> string \<Rightarrow> jsval \<Rightarrow> error + jsval" where
  "set_prop (JObj kvs) k v = Inr (JObj (assign k v kvs))"
| "set_prop (JArr xs) k v = Inr (JArr xs)"
| "set_prop w k v = Inl TypeError"

text \<open>
  The text of a value inside a template literal (\<open>String(v)\<close>); elements of an array
  are joined by commas, \<open>null\<close> and \<open>undefined\<close> elements being empty.
\<close>

fun join_commas :: "string list \<Rightarrow> string" where
  "join_commas [] = []"
| "join_commas [x] = x"
| "join_commas (x # y # zs) = x @ '','' @ join_commas (y # zs)"

fun js_String :: "node \<Rightarrow> jsval \<Rightarrow> string" where
  "js_String nd JUndefined = ''undefined''"
| "js_String nd JNull = ''null''"
| "js_String nd (JBool b) = (if b then ''true'' else ''false'')"
| "js_String nd (JNum i) = Number_toString nd i"
| "js_String nd (JStr s) = s"
| "js_String nd (JArr xs) =
     join_commas (map (\<lambda>x. if x = JNull \<or> x = JUndefined then [] else js_String nd x) xs)"
| "js_String nd (JObj kvs) = ''[object Object]''"

text \<open>
  The object \<open>createHmac("sha256", key)\<close> returns: \<open>update\<close> appends to the bytes
  seen so far, \<open>digest("hex")\<close> is the tag of all of them.
\<close>

record Hmac =
  hmac_key :: string
  hmac_data :: string

definition createHmac :: "string \<Rightarrow> Hmac" where
  "createHmac k = \<lparr>hmac_key = k, hmac_data = []\<rparr>"

definition Hmac_update :: "Hmac \<Rightarrow> string \<Rightarrow> Hmac" where
  "Hmac_update h r = h\<lparr>hmac_data := hmac_data h @ r\<rparr>"

definition Hmac_digest :: "node \<Rightarrow> Hmac \<Rightarrow> string" where
  "Hmac_digest nd h = hmac_sha256_hex nd (hmac_key h) (hmac_data h)"

subsection \<open>ZmqMessage\<close>

text \<open>\<open>rest\<close> are buffers: each \<open>update\<close> appends the bytes of one of them.\<close>

definition verifyHmac :: "node \<Rightarrow> string \<Rightarrow> string \<Rightarrow> buffer list \<Rightarrow> error + unit" where
  "verifyHmac nd k hm rest =
     (let hash = foldl (\<lambda>h r. Hmac_update h (bytes_of r)) (createHmac k) rest;
          hex = Hmac_digest nd hash
      in if hex = hm then Inr ()
         else Inl (Error (''invalid hmac '' @ hm @ ''; want '' @ hex)))"

text \<open>
  \<open>raw[i].toString()\<close>: beyond the end of the array \<open>raw[i]\<close> is \<open>undefined\<close>, and
  the call throws a \<open>TypeError\<close>.
\<close>

definition frame :: "node \<Rightarrow> buffer list \<Rightarrow> nat \<Rightarrow> error + string" where
  "frame nd raw i =
     (if i < length raw then Inr (Buffer_toString nd (raw ! i)) else Inl TypeError)"

definition fromRaw :: "node \<Rightarrow> string \<Rightarrow> buffer list \<Rightarrow> error + ZmqMessage" where
  "fromRaw nd k raw =
     andThen (frame nd raw 0) (\<lambda>r0.
     andThen (frame nd raw 1) (\<lambda>r1.
     andThen (frame nd raw 2) (\<lambda>r2.
     andThen (frame nd raw 3) (\<lambda>r3.
     andThen (JSON_parse_text nd r3) (\<lambda>hdr.
     andThen (frame nd raw 4) (\<lambda>r4.
     andThen (JSON_parse_text nd r4) (\<lambda>pa.
     andThen (frame nd raw 5) (\<lambda>r5.
     andThen (JSON_parse_text nd r5) (\<lambda>md.
     andThen (frame nd raw 6) (\<lambda>r6.
     andThen (JSON_parse_text nd r6) (\<lambda>co.
     andThen (verifyHmac nd k r2 (drop 3 raw)) (\<lambda>_.
       Inr \<lparr>identity = r0, delim = r1, hmac = r2, header = hdr, parent = pa,
            metadata = md, content = co, extra = drop 7 raw\<rparr>))))))))))))"

text \<open>
  \<open>now\<close> is the value of \<open>new Date().toISOString()\<close> at the call. The function is
  \<open>async\<close> and awaits nothing: its promise resolves with the message built here, or
  is rejected with the \<open>TypeError\<close> of reading a property of a \<open>null\<close> header.
  (\<open>newIdentity\<close>, the only source of random identifiers in the file, is never called.)
\<close>

definition createReply :: "string \<Rightarrow> ZmqMessage \<Rightarrow> error + ZmqMessage" where
  "createReply now m =
     andThen (get_prop (header m) ''session'') (\<lambda>se.
     andThen (get_prop (header m) ''username'') (\<lambda>us.
     andThen (get_prop (header m) ''msg_type'') (\<lambda>mt.
     andThen (get_prop (header m) ''msg_id'') (\<lambda>mi.
       Inr \<lparr>identity = identity m,
            delim = delim m,
            hmac = [],
            header = JObj [(''version'', JStr ''5.3''),
                           (''date'', JStr now),
                           (''session'', se),
                           (''username'', us),
                           (''msg_type'', mt),
                           (''msg_id'', mi)],
            parent = header m,
            metadata = JObj [],
            content = JObj [],
            extra = []\<rparr>))))"

datatype socket = Iopub | Shell | Control | Stdin | Hb

text \<open>
  \<open>Send sock m raw\<close>: \<open>m.signAndSend(key, sock)\<close> passed the strings \<open>raw\<close> to
  \<open>sock.send\<close>, which puts the buffers \<open>map Buffer_from raw\<close> on the wire.
  \<open>Warn w\<close>: \<open>console.warn(w)\<close>.
\<close>

datatype event = Send socket ZmqMessage "string list" | Warn string

text \<open>
  The array \<open>raw\<close> that \<open>signAndSend\<close> passes to \<open>sock.send\<close>. The bodies are
  strings: each \<open>update\<close> appends the UTF-8 text of one of them.
\<close>

definition signAndSend_raw :: "node \<Rightarrow> string \<Rightarrow> ZmqMessage \<Rightarrow> string list" where
  "signAndSend_raw nd k m =
     (let heads = [identity m, delim m];
          bodies = [JSON_stringify nd (header m),
                    JSON_stringify nd (parent m),
                    JSON_stringify nd (metadata m),
                    JSON_stringify nd (content m)]
                   @ map (JSON_stringify_Buffer nd) (extra m);
          hash = foldl Hmac_update (createHmac k) bodies;
          heads = heads @ [Hmac_digest nd hash]
      in heads @ bodies)"

text \<open>
  \<open>signAndSend\<close>. \<open>JSON.stringify(undefined)\<close> is \<open>undefined\<close>, not a string, and
  \<open>hash.update(undefined)\<close> throws a \<open>TypeError\<close>: a message one of whose four JSON
  fields is \<open>undefined\<close> is not sent. (The bodies are all built before the first
  \<open>update\<close>, and \<open>sock.send\<close> comes last.)
\<close>

definition signAndSend :: "node \<Rightarrow> ZmqMessage \<Rightarrow> string \<Rightarrow> socket \<Rightarrow> error + event" where
  "signAndSend nd m k sock =
     (if header m = JUndefined \<or> parent m = JUndefined \<or> metadata m = JUndefined
         \<or> content m = JUndefined
      then Inl TypeError
      else Inr (Send sock m (signAndSend_raw nd k m)))"

subsection \<open>JupyterHandler and JupyterHandlerImpl\<close>

text \<open>
  The interface \<open>JupyterHandler\<close>: each operation takes the handler's state \<open>'h\<close>,
  returns the reply content or throws, and leaves a new state.
\<close>

record 'h JupyterHandler =
  handleKernel :: "'h \<Rightarrow> (error + jsval) \<times> 'h"
  handleExecute :: "jsval \<Rightarrow> 'h \<Rightarrow> (error + jsval) \<times> 'h"
  handleIsComplete :: "jsval \<Rightarrow> 'h \<Rightarrow> (error + jsval) \<times> 'h"
  handleShutdown :: "jsval \<Rightarrow> 'h \<Rightarrow> (error + jsval) \<times> 'h"

text \<open>
  The converter and the executor (\<open>./converter\<close>, \<open>./executor\<close>) are taken as an opaque
  state \<open>'x\<close> with the two operations the handler calls. \<open>executor_execute\<close> returns
  whether the code ran successfully (the value its promise resolves to).
\<close>

record 'x collaborators =
  executor_execute :: "jsval \<Rightarrow> 'x \<Rightarrow> bool \<times> 'x"
  converter_close :: "'x \<Rightarrow> 'x"

record 'x JupyterHandlerImpl =
  ts :: bool
  execCount :: nat
  engine :: 'x
  console_log :: "string list"

definition JupyterHandlerImpl_new :: "bool \<Rightarrow> 'x \<Rightarrow> 'x JupyterHandlerImpl" where
  "JupyterHandlerImpl_new t x = \<lparr>ts = t, execCount = 0, engine = x, console_log = []\<rparr>"

definition JupyterHandlerImpl_handleKernel :: "'x JupyterHandlerImpl \<Rightarrow> jsval" where
  "JupyterHandlerImpl_handleKernel st =
     JObj [(''protocol_version'', JStr ''5.3''),
           (''implementation'', JStr (if ts st then ''tslab'' else ''jslab'')),
           (''implementation_version'', JStr ''1.0.0''),
           (''language_info'',
              JObj [(''name'', JStr ''javascript''),
                    (''version'', JStr ''''),
                    (''mimetype'', JStr ''''),
                    (''file_extension'', JStr (if ts st then ''.ts'' else ''.js''))]),
           (''banner'', JStr ''TypeScript'')]"

text \<open>
  \<open>++n\<close> on the counter, a JavaScript number (a double) that starts at 0: below
  \<open>2^53\<close> the sum \<open>n + 1\<close> is exact; \<open>2^53 + 1\<close> is not a double and rounds back to
  \<open>2^53\<close>, where the counter stays. (Starting at 0, the counter never holds a value
  above \<open>2^53\<close>.)
\<close>

definition js_incr :: "nat \<Rightarrow> nat" where
  "js_incr n = (if n < 2 ^ 53 then n + 1 else n)"

definition JupyterHandlerImpl_handleExecute ::
  "'x collaborators \<Rightarrow> jsval \<Rightarrow> 'x JupyterHandlerImpl \<Rightarrow> (error + jsval) \<times> 'x JupyterHandlerImpl" where
  "JupyterHandlerImpl_handleExecute C req st =
     (case get_prop req ''code'' of
        Inl e \<Rightarrow> (Inl e, st)
      | Inr code \<Rightarrow>
          (let (ok, x) = executor_execute C code (engine st);
               n = js_incr (execCount st)
           in (Inr (JObj [(''status'', JStr ''ok''), (''execution_count'', JNum (int n))]),
               st\<lparr>execCount := n, engine := x\<rparr>)))"

definition JupyterHandlerImpl_handleIsComplete ::
  "jsval \<Rightarrow> 'x JupyterHandlerImpl \<Rightarrow> (error + jsval) \<times> 'x JupyterHandlerImpl" where
  "JupyterHandlerImpl_handleIsComplete req st = (Inr (JObj [(''status'', JStr ''complete'')]), st)"

definition JupyterHandlerImpl_handleShutdown ::
  "node \<Rightarrow> 'x collaborators \<Rightarrow> jsval \<Rightarrow> 'x JupyterHandlerImpl \<Rightarrow> (error + jsval) \<times> 'x JupyterHandlerImpl" where
  "JupyterHandlerImpl_handleShutdown nd C req st =
     (let st1 = st\<lparr>console_log := console_log st @ [''shutdown_request: '' @ JSON_stringify nd req]\<rparr>;
          st2 = st1\<lparr>engine := converter_close C (engine st1)\<rparr>
      in (Inr (JObj [(''restart'', JBool False)]), st2))"

definition JupyterHandlerImpl_handler ::
  "node \<Rightarrow> 'x collaborators \<Rightarrow> ('x JupyterHandlerImpl) JupyterHandler" where
  "JupyterHandlerImpl_handler nd C =
     \<lparr>handleKernel = (\<lambda>st. (Inr (JupyterHandlerImpl_handleKernel st), st)),
      handleExecute = JupyterHandlerImpl_handleExecute C,
      handleIsComplete = JupyterHandlerImpl_handleIsComplete,
      handleShutdown = JupyterHandlerImpl_handleShutdown nd C\<rparr>"

subsection \<open>ZmqServer\<close>

record 'h ZmqServer =
  handler :: "'h JupyterHandler"
  connInfo :: ConnectionInfo

definition publishStatus ::
  "node \<Rightarrow> 'h ZmqServer \<Rightarrow> string \<Rightarrow> string \<Rightarrow> ZmqMessage \<Rightarrow> error + event" where
  "publishStatus nd srv now status par =
     andThen (createReply now par) (\<lambda>reply.
       let reply = reply\<lparr>content := JObj [(''execution_state'', JStr status)]\<rparr>
       in andThen (set_prop (header reply) ''msg_type'' (JStr ''status'')) (\<lambda>hdr.
            signAndSend nd (reply\<lparr>header := hdr\<rparr>) (key (connInfo srv)) Iopub))"

text \<open>
  The four reply operations. Each returns the exception it ends with (if any), the
  handler's new state and the events it caused.
\<close>

definition ZmqServer_handleKernelInfo ::
  "node \<Rightarrow> 'h ZmqServer \<Rightarrow> string \<Rightarrow> socket \<Rightarrow> ZmqMessage \<Rightarrow> 'h \<Rightarrow> error option \<times> 'h \<times> event list" where
  "ZmqServer_handleKernelInfo nd srv now sock msg h =
     (case createReply now msg of
        Inl e \<Rightarrow> (Some e, h, [])
      | Inr reply \<Rightarrow>
          (case set_prop (header reply) ''msg_type'' (JStr ''kernel_info_reply'') of
             Inl e \<Rightarrow> (Some e, h, [])
           | Inr hdr \<Rightarrow>
               (case handleKernel (handler srv) h of
                  (Inl e, h') \<Rightarrow> (Some e, h', [])
                | (Inr c, h') \<Rightarrow>
                    (case signAndSend nd (reply\<lparr>header := hdr, content := c\<rparr>)
                            (key (connInfo srv)) sock of
                       Inl e \<Rightarrow> (Some e, h', [])
                     | Inr ev \<Rightarrow> (None, h', [ev])))))"

definition ZmqServer_handleExecute ::
  "node \<Rightarrow> 'h ZmqServer \<Rightarrow> string \<Rightarrow> socket \<Rightarrow> ZmqMessage \<Rightarrow> 'h \<Rightarrow> error option \<times> 'h \<times> event list" where
  "ZmqServer_handleExecute nd srv now sock msg h =
     (case createReply now msg of
        Inl e \<Rightarrow> (Some e, h, [])
      | Inr reply \<Rightarrow>
          (case set_prop (header reply) ''msg_type'' (JStr ''execute_reply'') of
             Inl e \<Rightarrow> (Some e, h, [])
           | Inr hdr \<Rightarrow>
               (case handleExecute (handler srv) (content msg) h of
                  (Inl e, h') \<Rightarrow> (Some e, h', [])
                | (Inr c, h') \<Rightarrow>
                    (case signAndSend nd (reply\<lparr>header := hdr, content := c\<rparr>)
                            (key (connInfo srv)) sock of
                       Inl e \<Rightarrow> (Some e, h', [])
                     | Inr ev \<Rightarrow> (None, h', [ev])))))"

definition ZmqServer_handleIsComplete ::
  "node \<Rightarrow> 'h ZmqServer \<Rightarrow> string \<Rightarrow> socket \<Rightarrow> ZmqMessage \<Rightarrow> 'h \<Rightarrow> error option \<times> 'h \<times> event list" where
  "ZmqServer_handleIsComplete nd srv now sock msg h =
     (case createReply now msg of
        Inl e \<Rightarrow> (Some e, h, [])
      | Inr reply \<Rightarrow>
          (case set_prop (header reply) ''msg_type'' (JStr ''is_complete_reply'') of
             Inl e \<Rightarrow> (Some e, h, [])
           | Inr hdr \<Rightarrow>
               (case handleIsComplete (handler srv) (content msg) h of
                  (Inl e, h') \<Rightarrow> (Some e, h', [])
                | (Inr c, h') \<Rightarrow>
                    (case signAndSend nd (reply\<lparr>header := hdr, content := c\<rparr>)
                            (key (connInfo srv)) sock of
                       Inl e \<Rightarrow> (Some e, h', [])
                     | Inr ev \<Rightarrow> (None, h', [ev])))))"

definition ZmqServer_handleShutdown ::
  "node \<Rightarrow> 'h ZmqServer \<Rightarrow> string \<Rightarrow> socket \<Rightarrow> ZmqMessage \<Rightarrow> 'h \<Rightarrow> error option \<times> 'h \<times> event list" where
  "ZmqServer_handleShutdown nd srv now sock msg h =
     (case createReply now msg of
        Inl e \<Rightarrow> (Some e, h, [])
      | Inr reply \<Rightarrow>
          (case set_prop (header reply) ''msg_type'' (JStr ''shutdown_reply'') of
             Inl e \<Rightarrow> (Some e, h, [])
           | Inr hdr \<Rightarrow>
               (case handleShutdown (handler srv) (content msg) h of
                  (Inl e, h') \<Rightarrow> (Some e, h', [])
                | (Inr c, h') \<Rightarrow>
                    (case signAndSend nd (reply\<lparr>header := hdr, content := c\<rparr>)
                            (key (connInfo srv)) sock of
                       Inl e \<Rightarrow> (Some e, h', [])
                     | Inr ev \<Rightarrow> (None, h', [ev])))))"

text \<open>
  The \<open>switch\<close> of \<open>handleShellMessage\<close>, the body of its \<open>try\<close> block: the value of
  \<open>msg.header.msg_type\<close> is compared with the four strings.
\<close>

definition route ::
  "node \<Rightarrow> 'h ZmqServer \<Rightarrow> string \<Rightarrow> socket \<Rightarrow> ZmqMessage \<Rightarrow> 'h \<Rightarrow> error option \<times> 'h \<times> event list" where
  "route nd srv now sock msg h =
     (case get_prop (header msg) ''msg_type'' of
        Inl e \<Rightarrow> (Some e, h, [])
      | Inr t \<Rightarrow>
          if t = JStr ''kernel_info_request'' then
            ZmqServer_handleKernelInfo nd srv now sock msg h
          else if t = JStr ''execute_request'' then
            ZmqServer_handleExecute nd srv now sock msg h
          else if t = JStr ''is_complete_request'' then
            ZmqServer_handleIsComplete nd srv now sock msg h
          else if t = JStr ''shutdown_request'' then
            ZmqServer_handleShutdown nd srv now sock msg h
          else (None, h, [Warn (''unknown msg_type: '' @ js_String nd t)]))"

text \<open>
  \<open>handleShellMessage\<close> on the socket \<open>sock\<close> with the frames \<open>args\<close>. The three
  strings are the clock readings of the three \<open>createReply\<close> calls (busy status,
  reply, idle status). An exception of \<open>fromRaw\<close> or of the first \<open>publishStatus\<close>
  leaves the function before the \<open>try\<close> block; the \<open>finally\<close> block publishes the
  idle status whether or not the \<open>try\<close> block threw, and the exception of the \<open>try\<close>
  block is the result unless the \<open>finally\<close> block throws itself.
\<close>

definition handleShellMessage ::
  "node \<Rightarrow> 'h ZmqServer \<Rightarrow> string \<times> string \<times> string \<Rightarrow> socket \<Rightarrow> buffer list \<Rightarrow> 'h
     \<Rightarrow> error option \<times> 'h \<times> event list" where
  "handleShellMessage nd srv clock sock args h =
     (case fromRaw nd (key (connInfo srv)) args of
        Inl e \<Rightarrow> (Some e, h, [])
      | Inr msg \<Rightarrow>
          (let (t1, t2, t3) = clock in
           case publishStatus nd srv t1 ''busy'' msg of
             Inl e \<Rightarrow> (Some e, h, [])
           | Inr busy \<Rightarrow>
               (let (r, h', evs) = route nd srv t2 sock msg h in
                case publishStatus nd srv t3 ''idle'' msg of
                  Inl e \<Rightarrow> (Some e, h', [busy] @ evs)
                | Inr idle \<Rightarrow> (r, h', [busy] @ evs @ [idle]))))"

text \<open>
  \<open>main\<close>: \<open>cmd\<close> is \<open>path.basename(process.argv[1])\<close>; the result is the handler the
  server is constructed with.
\<close>

definition main :: "string \<Rightarrow> 'x \<Rightarrow> 'x JupyterHandlerImpl" where
  "main cmd x =
     (let ts0 = False;
          ts1 = (if take 2 cmd = ''ts'' then True else ts0)
      in JupyterHandlerImpl_new True x)"

subsection \<open>Notions used in the statements\<close>

text \<open>
  \<open>body_tag nd k raw\<close> is the tag \<open>verifyHmac\<close> computes when \<open>fromRaw\<close> calls it:
  the HMAC under \<open>k\<close> of the bytes of the frames \<open>raw.slice(3)\<close>, one after the other.
\<close>

definition body_tag :: "node \<Rightarrow> string \<Rightarrow> buffer list \<Rightarrow> string" where
  "body_tag nd k raw = hmac_sha256_hex nd k (concat (map bytes_of (drop 3 raw)))"

text \<open>
  Frame \<open>i\<close> (one of the four body frames 3 to 6) is valid JSON: \<open>JSON.parse\<close> of its
  text does not throw.
\<close>

definition valid_JSON_frame :: "node \<Rightarrow> buffer list \<Rightarrow> nat \<Rightarrow> bool" where
  "valid_JSON_frame nd raw i = (JSON_parse nd (Buffer_toString nd (raw ! i)) \<noteq> None)"

text \<open>The value of the property \<open>k\<close> of a value that is neither \<open>null\<close> nor \<open>undefined\<close>.\<close>

definition js_prop :: "jsval \<Rightarrow> string \<Rightarrow> jsval" where
  "js_prop v k = (case get_prop v k of Inr x \<Rightarrow> x | Inl e \<Rightarrow> JUndefined)"

text \<open>
  The message \<open>createReply\<close> returns for \<open>msg\<close> after its \<open>msg_type\<close> has been set to
  \<open>t\<close> and its content to \<open>c\<close>.
\<close>

definition reply_to :: "string \<Rightarrow> jsval \<Rightarrow> jsval \<Rightarrow> ZmqMessage \<Rightarrow> ZmqMessage" where
  "reply_to now t c msg =
     \<lparr>identity = identity msg, delim = delim msg, hmac = [],
      header = JObj [(''version'', JStr ''5.3''),
                     (''date'', JStr now),
                     (''session'', js_prop (header msg) ''session''),
                     (''username'', js_prop (header msg) ''username''),
                     (''msg_type'', t),
                     (''msg_id'', js_prop (header msg) ''msg_id'')],
      parent = header msg, metadata = JObj [], content = c, extra = []\<rparr>"

text \<open>A status broadcast: a send on the iopub socket whose content is the state \<open>st\<close>.\<close>

fun is_status :: "string \<Rightarrow> event \<Rightarrow> bool" where
  "is_status st (Send s m f) = (s = Iopub \<and> content m = JObj [(''execution_state'', JStr st)])"
| "is_status st (Warn w) = False"

subsection \<open>An instance of the parameters, for the examples\<close>

text \<open>
  The examples need a concrete \<open>node\<close>. \<open>js_text\<close> prints a value the way
  \<open>JSON.stringify\<close> does (for strings that need no escaping), \<open>buffer_text\<close> prints a
  \<open>Buffer\<close> the way \<open>JSON.stringify\<close> does, and the parser reads back the texts of
  the listed values and rejects every other text. \<open>ex_decode_lossy\<close> replaces every
  byte from 128 on by the replacement character, which is what \<open>Buffer.toString()\<close>
  does when none of these bytes starts a well-formed sequence. \<open>ex_hmac\<close> stands for
  the keyed hash.
\<close>

function show_nat :: "nat \<Rightarrow> string" where
  "show_nat n =
     (if n < 10 then [''0123456789'' ! n]
      else show_nat (n div 10) @ [''0123456789'' ! (n mod 10)])"
  by pat_completeness auto
termination
  by (relation "measure id") auto

declare show_nat.simps [simp del]

definition show_int :: "int \<Rightarrow> string" where
  "show_int i = (if i < 0 then ''-'' @ show_nat (nat (- i)) else show_nat (nat i))"

definition quote :: "string \<Rightarrow> string" where
  "quote s = ''\"'' @ s @ ''\"''"

fun js_text :: "jsval \<Rightarrow> string" where
  "js_text JUndefined = ''null''"
| "js_text JNull = ''null''"
| "js_text (JBool b) = (if b then ''true'' else ''false'')"
| "js_text (JNum i) = show_int i"
| "js_text (JStr s) = quote s"
| "js_text (JArr xs) = ''['' @ join_commas (map js_text xs) @ '']''"
| "js_text (JObj kvs) =
     ''{'' @ join_commas (map (\<lambda>p. quote (fst p) @ '':'' @ js_text (snd p))
                             (filter (\<lambda>p. snd p \<noteq> JUndefined) kvs)) @ ''}''"

definition buffer_text :: "buffer \<Rightarrow> string" where
  "buffer_text b =
     ''{\"type\":\"Buffer\",\"data\":[''
       @ join_commas (map (\<lambda>c. show_nat (of_char c)) (bytes_of b)) @ '']}''"

definition ex_decode_lossy :: "string \<Rightarrow> string" where
  "ex_decode_lossy bs =
     concat (map (\<lambda>c. if of_char c < (128::nat) then [c] else [CHR 0xEF, CHR 0xBF, CHR 0xBD]) bs)"

definition ex_header :: "string \<Rightarrow> jsval" where
  "ex_header t =
     JObj [(''version'', JStr ''5.3''), (''date'', JStr ''2020-01-01T00:00:00.000Z''),
           (''session'', JStr ''s1''), (''username'', JStr ''u''),
           (''msg_type'', JStr t), (''msg_id'', JStr ''m1'')]"

definition ex_values :: "jsval list" where
  "ex_values =
     map ex_header [''kernel_info_request'', ''execute_request'', ''is_complete_request'',
                    ''shutdown_request'', ''frobnicate_request'']
     @ [JObj [], JNull, JObj [(''code'', JStr ''1+1'')], JObj [(''code'', JStr ''boom'')],
        JObj [(''restart'', JBool True)]]"

definition ex_hmac :: "string \<Rightarrow> string \<Rightarrow> string" where
  "ex_hmac k d = ''hmac('' @ k @ '','' @ d @ '')''"

definition ex_node :: node where
  "ex_node = \<lparr>JSON_parse = map_of (map (\<lambda>v. (js_text v, v)) ex_values),
              JSON_stringify = js_text,
              JSON_stringify_Buffer = buffer_text,
              utf8_decode_lossy = ex_decode_lossy,
              Number_toString = show_int,
              hmac_sha256_hex = ex_hmac\<rparr>"

definition ex_conn :: ConnectionInfo where
  "ex_conn = \<lparr>shell_port = 5001, iopub_port = 5002, stdin_port = 5003, control_port = 5004,
              hb_port = 5005, ip = ''127.0.0.1'', key = ''secret'', transport = ''tcp'',
              signature_scheme = ''hmac-sha256'', kernel_name = ''tslab''\<rparr>"

text \<open>
  The engine of the examples counts the calls of \<open>execute\<close>; only the code \<open>1+1\<close> runs
  successfully.
\<close>

definition ex_collab :: "nat collaborators" where
  "ex_collab = \<lparr>executor_execute = (\<lambda>code n. (code = JStr ''1+1'', Suc n)),
                converter_close = (\<lambda>n. n)\<rparr>"

definition ex_srv :: "(nat JupyterHandlerImpl) ZmqServer" where
  "ex_srv = \<lparr>handler = JupyterHandlerImpl_handler ex_node ex_collab, connInfo = ex_conn\<rparr>"

text \<open>
  A request of seven frames, each the encoding of a string:
  signature frame \<open>sig\<close>, header frame \<open>ht\<close>, parent header \<open>{}\<close>, metadata \<open>{}\<close> and
  content frame \<open>c\<close>. \<open>ex_sig ht c\<close> is the tag of its body frames under the key of
  \<open>ex_conn\<close>, and \<open>ex_msg\<close> the message it decodes to.
\<close>

definition ex_raw :: "string \<Rightarrow> string \<Rightarrow> string \<Rightarrow> buffer list" where
  "ex_raw sig ht c =
     map Buffer_from [''client'', ''<IDS|MSG>'', sig, ht, ''{}'', ''{}'', c]"

definition ex_sig :: "string \<Rightarrow> string \<Rightarrow> string" where
  "ex_sig ht c = ex_hmac ''secret'' (ht @ ''{}'' @ ''{}'' @ c)"

definition ex_msg :: "string \<Rightarrow> jsval \<Rightarrow> jsval \<Rightarrow> ZmqMessage" where
  "ex_msg sig hv cv =
     \<lparr>identity = ''client'', delim = ''<IDS|MSG>'', hmac = sig, header = hv,
      parent = JObj [], metadata = JObj [], content = cv, extra = []\<rparr>"

text \<open>The header frame of a request of type \<open>t\<close>.\<close>

definition ex_header_text :: "string \<Rightarrow> string" where
  "ex_header_text t = js_text (ex_header t)"

text \<open>
  \<open>ex_request t c\<close> is the correctly signed request of type \<open>t\<close> with content frame
  \<open>c\<close>, and \<open>ex_decoded t c cv\<close> the message it decodes to when \<open>c\<close> is parsed as \<open>cv\<close>.
  \<open>ex_status now st msg\<close> and \<open>ex_reply sock now t c msg\<close> are the status broadcast and
  the reply of type \<open>t\<close> with content \<open>c\<close>, as sent for the request \<open>msg\<close> under the key
  of \<open>ex_conn\<close>.
\<close>

definition ex_request :: "string \<Rightarrow> string \<Rightarrow> buffer list" where
  "ex_request t c = ex_raw (ex_sig (ex_header_text t) c) (ex_header_text t) c"

definition ex_decoded :: "string \<Rightarrow> string \<Rightarrow> jsval \<Rightarrow> ZmqMessage" where
  "ex_decoded t c cv = ex_msg (ex_sig (ex_header_text t) c) (ex_header t) cv"

definition ex_status :: "string \<Rightarrow> string \<Rightarrow> ZmqMessage \<Rightarrow> event" where
  "ex_status now st msg =
     Send Iopub (reply_to now (JStr ''status'') (JObj [(''execution_state'', JStr st)]) msg)
       (signAndSend_raw ex_node ''secret''
          (reply_to now (JStr ''status'') (JObj [(''execution_state'', JStr st)]) msg))"

definition ex_reply :: "socket \<Rightarrow> string \<Rightarrow> string \<Rightarrow> jsval \<Rightarrow> ZmqMessage \<Rightarrow> event" where
  "ex_reply sock now t c msg =
     Send sock (reply_to now (JStr t) c msg)
       (signAndSend_raw ex_node ''secret'' (reply_to now (JStr t) c msg))"

section \<open>Basic facts\<close>

subsection \<open>The codec\<close>

lemma foldl_Hmac_update:
  "foldl Hmac_update h rest = h\<lparr>hmac_data := hmac_data h @ concat rest\<rparr>"
  by (induction rest arbitrary: h) (simp_all add: Hmac_update_def)

lemma foldl_Hmac_update_bytes:
  "foldl (\<lambda>h r. Hmac_update h (bytes_of r)) h rest
     = h\<lparr>hmac_data := hmac_data h @ concat (map bytes_of rest)\<rparr>"
  by (induction rest arbitrary: h) (simp_all add: Hmac_update_def)

lemma verifyHmac_eq:
  "verifyHmac nd k hm rest =
     (if hmac_sha256_hex nd k (concat (map bytes_of rest)) = hm then Inr ()
      else Inl (Error (''invalid hmac '' @ hm @ ''; want ''
                  @ hmac_sha256_hex nd k (concat (map bytes_of rest)))))"
  by (simp add: verifyHmac_def foldl_Hmac_update_bytes createHmac_def Hmac_digest_def Let_def)

lemma fromRaw_short: "length raw < 7 \<Longrightarrow> \<exists>e. fromRaw nd k raw = Inl e"
  by (auto simp: fromRaw_def andThen_def frame_def JSON_parse_text_def
      split: sum.splits option.splits)

lemma fromRaw_parsed:
  assumes "7 \<le> length raw"
    and "JSON_parse nd (Buffer_toString nd (raw ! 3)) = Some hdr"
    and "JSON_parse nd (Buffer_toString nd (raw ! 4)) = Some pa"
    and "JSON_parse nd (Buffer_toString nd (raw ! 5)) = Some md"
    and "JSON_parse nd (Buffer_toString nd (raw ! 6)) = Some co"
  shows "fromRaw nd k raw =
     (if body_tag nd k raw = Buffer_toString nd (raw ! 2)
      then Inr \<lparr>identity = Buffer_toString nd (raw ! 0), delim = Buffer_toString nd (raw ! 1),
            hmac = Buffer_toString nd (raw ! 2), header = hdr, parent = pa,
            metadata = md, content = co, extra = drop 7 raw\<rparr>
      else Inl (Error (''invalid hmac '' @ Buffer_toString nd (raw ! 2) @ ''; want ''
                  @ body_tag nd k raw)))"
proof -
  from assms(1) have "0 < length raw" "1 < length raw" "2 < length raw" "3 < length raw"
    "4 < length raw" "5 < length raw" "6 < length raw"
    by auto
  with assms(2-5) show ?thesis
    by (simp add: fromRaw_def andThen_def frame_def JSON_parse_text_def verifyHmac_eq
        body_tag_def)
qed

lemma fromRaw_InrD:
  assumes "fromRaw nd k raw = Inr m"
  shows "7 \<le> length raw \<and> body_tag nd k raw = Buffer_toString nd (raw ! 2)
     \<and> JSON_parse nd (Buffer_toString nd (raw ! 3)) = Some (header m)
     \<and> JSON_parse nd (Buffer_toString nd (raw ! 4)) = Some (parent m)
     \<and> JSON_parse nd (Buffer_toString nd (raw ! 5)) = Some (metadata m)
     \<and> JSON_parse nd (Buffer_toString nd (raw ! 6)) = Some (content m)
     \<and> identity m = Buffer_toString nd (raw ! 0) \<and> delim m = Buffer_toString nd (raw ! 1)
     \<and> hmac m = Buffer_toString nd (raw ! 2) \<and> extra m = drop 7 raw"
  using assms
  by (auto simp: fromRaw_def andThen_def frame_def JSON_parse_text_def verifyHmac_eq body_tag_def
      split: sum.splits option.splits if_splits)

lemma fromRaw_invalid_frame:
  assumes "3 \<le> i" and "i \<le> 6" and "i < length raw" and "\<not> valid_JSON_frame nd raw i"
  shows "fromRaw nd k raw = Inl SyntaxError"
proof -
  from assms(1,2) consider "i = 3" | "i = 4" | "i = 5" | "i = 6" by linarith
  then show ?thesis
    using assms(3,4)
    by cases
      (auto simp: fromRaw_def andThen_def frame_def JSON_parse_text_def valid_JSON_frame_def
        split: sum.splits option.splits)
qed

lemma valid_JSON_frame_hmac_update [simp]:
  "valid_JSON_frame (nd\<lparr>hmac_sha256_hex := f\<rparr>) raw i = valid_JSON_frame nd raw i"
proof -
  have "Buffer_toString (nd\<lparr>hmac_sha256_hex := f\<rparr>) b = Buffer_toString nd b" for b
    by (cases b) simp_all
  then show ?thesis
    by (simp add: valid_JSON_frame_def)
qed

lemma signAndSend_raw_eq:
  "signAndSend_raw nd k m =
     [identity m, delim m,
      hmac_sha256_hex nd k (JSON_stringify nd (header m)
         @ JSON_stringify nd (parent m)
         @ JSON_stringify nd (metadata m)
         @ JSON_stringify nd (content m)
         @ concat (map (JSON_stringify_Buffer nd) (extra m))),
      JSON_stringify nd (header m),
      JSON_stringify nd (parent m),
      JSON_stringify nd (metadata m),
      JSON_stringify nd (content m)] @ map (JSON_stringify_Buffer nd) (extra m)"
  by (simp add: signAndSend_raw_def Let_def foldl_Hmac_update createHmac_def Hmac_digest_def)

lemma fromRaw_signAndSend_raw:
  assumes "JSON_parse nd (JSON_stringify nd (header m)) = Some (header m)"
    and "JSON_parse nd (JSON_stringify nd (parent m)) = Some (parent m)"
    and "JSON_parse nd (JSON_stringify nd (metadata m)) = Some (metadata m)"
    and "JSON_parse nd (JSON_stringify nd (content m)) = Some (content m)"
  shows "fromRaw nd k (map Buffer_from (signAndSend_raw nd k m))
     = Inr (m\<lparr>hmac := signAndSend_raw nd k m ! 2,
              extra := map (\<lambda>b. Buffer_from (JSON_stringify_Buffer nd b)) (extra m)\<rparr>)"
proof -
  let ?raw = "map Buffer_from (signAndSend_raw nd k m)"
  have bytes: "bytes_of \<circ> (Buffer_from \<circ> f) = f" for f
    by (simp add: fun_eq_iff)
  have "fromRaw nd k ?raw =
     (if body_tag nd k ?raw = Buffer_toString nd (?raw ! 2)
      then Inr \<lparr>identity = Buffer_toString nd (?raw ! 0), delim = Buffer_toString nd (?raw ! 1),
            hmac = Buffer_toString nd (?raw ! 2), header = header m,
            parent = parent m, metadata = metadata m, content = content m,
            extra = drop 7 ?raw\<rparr>
      else Inl (Error (''invalid hmac '' @ Buffer_toString nd (?raw ! 2) @ ''; want ''
                  @ body_tag nd k ?raw)))"
    using assms by (intro fromRaw_parsed) (simp_all add: signAndSend_raw_eq)
  moreover have "body_tag nd k ?raw = Buffer_toString nd (?raw ! 2)"
    by (simp add: body_tag_def signAndSend_raw_eq bytes)
  ultimately show ?thesis
    by (simp add: signAndSend_raw_eq)
qed

subsection \<open>The dispatcher\<close>

lemma get_prop_js_prop:
  "v \<noteq> JNull \<Longrightarrow> v \<noteq> JUndefined \<Longrightarrow> get_prop v k = Inr (js_prop v k)"
  by (cases v) (simp_all add: js_prop_def)

lemma get_prop_InrD: "get_prop v k = Inr x \<Longrightarrow> v \<noteq> JNull \<and> v \<noteq> JUndefined \<and> x = js_prop v k"
  by (cases v) (auto simp: js_prop_def)

lemma get_prop_Inl: "get_prop v k = Inl e \<Longrightarrow> e = TypeError \<and> (v = JNull \<or> v = JUndefined)"
  by (cases v) auto

lemma reply_to_fields:
  "identity (reply_to now t c msg) = identity msg"
  "delim (reply_to now t c msg) = delim msg"
  "hmac (reply_to now t c msg) = []"
  "parent (reply_to now t c msg) = header msg"
  "metadata (reply_to now t c msg) = JObj []"
  "content (reply_to now t c msg) = c"
  "extra (reply_to now t c msg) = []"
  "get_prop (header (reply_to now t c msg)) ''version'' = Inr (JStr ''5.3'')"
  "get_prop (header (reply_to now t c msg)) ''date'' = Inr (JStr now)"
  "get_prop (header (reply_to now t c msg)) ''session'' = Inr (js_prop (header msg) ''session'')"
  "get_prop (header (reply_to now t c msg)) ''username'' = Inr (js_prop (header msg) ''username'')"
  "get_prop (header (reply_to now t c msg)) ''msg_type'' = Inr t"
  "get_prop (header (reply_to now t c msg)) ''msg_id'' = Inr (js_prop (header msg) ''msg_id'')"
  by (simp_all add: reply_to_def)

lemma createReply_eq:
  assumes "header msg \<noteq> JNull" and "header msg \<noteq> JUndefined"
  shows "createReply now msg = Inr (reply_to now (js_prop (header msg) ''msg_type'') (JObj []) msg)"
  using assms by (simp add: createReply_def get_prop_js_prop andThen_def reply_to_def)

lemma createReply_null:
  assumes "header msg = JNull \<or> header msg = JUndefined"
  shows "createReply now msg = Inl TypeError"
  using assms by (auto simp: createReply_def andThen_def)

lemma publishStatus_eq:
  assumes "header msg \<noteq> JNull" and "header msg \<noteq> JUndefined"
  shows "publishStatus nd srv now st msg =
     Inr (Send Iopub (reply_to now (JStr ''status'') (JObj [(''execution_state'', JStr st)]) msg)
       (signAndSend_raw nd (key (connInfo srv))
          (reply_to now (JStr ''status'') (JObj [(''execution_state'', JStr st)]) msg)))"
  using assms(2)
  by (simp add: publishStatus_def createReply_eq [OF assms] andThen_def signAndSend_def
      reply_to_def Let_def)

lemma publishStatus_null:
  assumes "header msg = JNull \<or> header msg = JUndefined"
  shows "publishStatus nd srv now st msg = Inl TypeError"
  by (simp add: publishStatus_def createReply_null [OF assms] andThen_def)

lemma set_prop_reply_to:
  "set_prop (header (reply_to now t c msg)) ''msg_type'' v = Inr (header (reply_to now v c' msg))"
  by (simp add: reply_to_def)

lemma reply_to_update:
  "(reply_to now t c msg)\<lparr>header := header (reply_to now v c' msg), content := c'\<rparr>
     = reply_to now v c' msg"
  by (simp add: reply_to_def)

lemma signAndSend_reply_to:
  assumes "header msg \<noteq> JUndefined"
  shows "signAndSend nd (reply_to now t c msg) k sock =
     (if c = JUndefined then Inl TypeError
      else Inr (Send sock (reply_to now t c msg) (signAndSend_raw nd k (reply_to now t c msg))))"
  using assms by (simp add: signAndSend_def reply_to_def)

lemma handle_cases:
  assumes "header msg \<noteq> JNull" and "header msg \<noteq> JUndefined"
  shows
  "ZmqServer_handleKernelInfo nd srv now sock msg h =
     (case handleKernel (handler srv) h of
        (Inl e, h') \<Rightarrow> (Some e, h', [])
      | (Inr c, h') \<Rightarrow>
          if c = JUndefined then (Some TypeError, h', [])
          else (None, h', [Send sock (reply_to now (JStr ''kernel_info_reply'') c msg)
           (signAndSend_raw nd (key (connInfo srv))
              (reply_to now (JStr ''kernel_info_reply'') c msg))]))"
  "ZmqServer_handleExecute nd srv now sock msg h =
     (case handleExecute (handler srv) (content msg) h of
        (Inl e, h') \<Rightarrow> (Some e, h', [])
      | (Inr c, h') \<Rightarrow>
          if c = JUndefined then (Some TypeError, h', [])
          else (None, h', [Send sock (reply_to now (JStr ''execute_reply'') c msg)
           (signAndSend_raw nd (key (connInfo srv))
              (reply_to now (JStr ''execute_reply'') c msg))]))"
  "ZmqServer_handleIsComplete nd srv now sock msg h =
     (case handleIsComplete (handler srv) (content msg) h of
        (Inl e, h') \<Rightarrow> (Some e, h', [])
      | (Inr c, h') \<Rightarrow>
          if c = JUndefined then (Some TypeError, h', [])
          else (None, h', [Send sock (reply_to now (JStr ''is_complete_reply'') c msg)
           (signAndSend_raw nd (key (connInfo srv))
              (reply_to now (JStr ''is_complete_reply'') c msg))]))"
  "ZmqServer_handleShutdown nd srv now sock msg h =
     (case handleShutdown (handler srv) (content msg) h of
        (Inl e, h') \<Rightarrow> (Some e, h', [])
      | (Inr c, h') \<Rightarrow>
          if c = JUndefined then (Some TypeError, h', [])
          else (None, h', [Send sock (reply_to now (JStr ''shutdown_reply'') c msg)
           (signAndSend_raw nd (key (connInfo srv))
              (reply_to now (JStr ''shutdown_reply'') c msg))]))"
proof -
  have shape: "(case set_prop (header (reply_to now t0 (JObj []) msg)) ''msg_type'' v of
         Inl e \<Rightarrow> (Some e, h, [])
       | Inr hdr \<Rightarrow>
           (case res of
              (Inl e, h') \<Rightarrow> (Some e, h', [])
            | (Inr c, h') \<Rightarrow>
                (case signAndSend nd
                        ((reply_to now t0 (JObj []) msg)\<lparr>header := hdr, content := c\<rparr>)
                        (key (connInfo srv)) sock of
                   Inl e \<Rightarrow> (Some e, h', [])
                 | Inr ev \<Rightarrow> (None, h', [ev]))))
       = (case res of
            (Inl e, h') \<Rightarrow> (Some e, h', [])
          | (Inr c, h') \<Rightarrow>
              if c = JUndefined then (Some TypeError, h', [])
              else (None, h', [Send sock (reply_to now v c msg)
               (signAndSend_raw nd (key (connInfo srv)) (reply_to now v c msg))]))"
    for t0 v and res :: "(error + jsval) \<times> 'a"
  proof (cases res)
    case (Pair x h1)
    show ?thesis
    proof (cases x)
      case (Inl e)
      with Pair show ?thesis
        by (simp add: set_prop_reply_to [where c' = "JObj []"])
    next
      case (Inr c)
      have "(reply_to now t0 (JObj []) msg)\<lparr>header := header (reply_to now v (JObj []) msg),
          content := c\<rparr> = reply_to now v c msg"
        by (simp add: reply_to_def)
      with Pair Inr assms(2) show ?thesis
        by (simp add: set_prop_reply_to [where c' = "JObj []"] signAndSend_reply_to)
    qed
  qed
  show "ZmqServer_handleKernelInfo nd srv now sock msg h =
     (case handleKernel (handler srv) h of
        (Inl e, h') \<Rightarrow> (Some e, h', [])
      | (Inr c, h') \<Rightarrow>
          if c = JUndefined then (Some TypeError, h', [])
          else (None, h', [Send sock (reply_to now (JStr ''kernel_info_reply'') c msg)
           (signAndSend_raw nd (key (connInfo srv))
              (reply_to now (JStr ''kernel_info_reply'') c msg))]))"
    unfolding ZmqServer_handleKernelInfo_def createReply_eq [OF assms] sum.case
    by (rule shape)
  show "ZmqServer_handleExecute nd srv now sock msg h =
     (case handleExecute (handler srv) (content msg) h of
        (Inl e, h') \<Rightarrow> (Some e, h', [])
      | (Inr c, h') \<Rightarrow>
          if c = JUndefined then (Some TypeError, h', [])
          else (None, h', [Send sock (reply_to now (JStr ''execute_reply'') c msg)
           (signAndSend_raw nd (key (connInfo srv))
              (reply_to now (JStr ''execute_reply'') c msg))]))"
    unfolding ZmqServer_handleExecute_def createReply_eq [OF assms] sum.case
    by (rule shape)
  show "ZmqServer_handleIsComplete nd srv now sock msg h =
     (case handleIsComplete (handler srv) (content msg) h of
        (Inl e, h') \<Rightarrow> (Some e, h', [])
      | (Inr c, h') \<Rightarrow>
          if c = JUndefined then (Some TypeError, h', [])
          else (None, h', [Send sock (reply_to now (JStr ''is_complete_reply'') c msg)
           (signAndSend_raw nd (key (connInfo srv))
              (reply_to now (JStr ''is_complete_reply'') c msg))]))"
    unfolding ZmqServer_handleIsComplete_def createReply_eq [OF assms] sum.case
    by (rule shape)
  show "ZmqServer_handleShutdown nd srv now sock msg h =
     (case handleShutdown (handler srv) (content msg) h of
        (Inl e, h') \<Rightarrow> (Some e, h', [])
      | (Inr c, h') \<Rightarrow>
          if c = JUndefined then (Some TypeError, h', [])
          else (None, h', [Send sock (reply_to now (JStr ''shutdown_reply'') c msg)
           (signAndSend_raw nd (key (connInfo srv))
              (reply_to now (JStr ''shutdown_reply'') c msg))]))"
    unfolding ZmqServer_handleShutdown_def createReply_eq [OF assms] sum.case
    by (rule shape)
qed

lemma route_eq:
  assumes "header msg \<noteq> JNull" and "header msg \<noteq> JUndefined"
  shows "route nd srv now sock msg h =
     (if js_prop (header msg) ''msg_type'' = JStr ''kernel_info_request'' then
        ZmqServer_handleKernelInfo nd srv now sock msg h
      else if js_prop (header msg) ''msg_type'' = JStr ''execute_request'' then
        ZmqServer_handleExecute nd srv now sock msg h
      else if js_prop (header msg) ''msg_type'' = JStr ''is_complete_request'' then
        ZmqServer_handleIsComplete nd srv now sock msg h
      else if js_prop (header msg) ''msg_type'' = JStr ''shutdown_request'' then
        ZmqServer_handleShutdown nd srv now sock msg h
      else (None, h, [Warn (''unknown msg_type: '' @ js_String nd (js_prop (header msg) ''msg_type''))]))"
  by (simp add: route_def get_prop_js_prop [OF assms])

lemma reply_shape_Send:
  assumes "(case res of
            (Inl e, h') \<Rightarrow> (Some e, h', [])
          | (Inr c, h') \<Rightarrow>
              if c = JUndefined then (Some TypeError, h', [])
              else (None, h', [Send sock (reply_to now (JStr t) c msg)
               (F (reply_to now (JStr t) c msg))])) = (r, h1, evs)"
    and "Send s rep f \<in> set evs"
  shows "s = sock \<and> f = F rep \<and> rep = reply_to now (JStr t) (content rep) msg
     \<and> evs = [Send s rep f] \<and> r = None"
proof (cases res)
  case (Pair x h2)
  show ?thesis
  proof (cases x)
    case (Inl e)
    with Pair assms show ?thesis by simp
  next
    case (Inr c)
    with Pair assms have "rep = reply_to now (JStr t) c msg" and "s = sock"
      and "f = F rep" and "evs = [Send s rep f]" and "r = None"
      by (auto split: if_splits)
    then show ?thesis
      by (simp add: reply_to_fields)
  qed
qed

lemma route_Send:
  assumes "header msg \<noteq> JNull" and "header msg \<noteq> JUndefined"
    and "route nd srv now sock msg h = (r, h', evs)" and "Send s rep f \<in> set evs"
  shows "s = sock \<and> f = signAndSend_raw nd (key (connInfo srv)) rep
       \<and> (rep = reply_to now (JStr ''kernel_info_reply'') (content rep) msg
          \<or> rep = reply_to now (JStr ''execute_reply'') (content rep) msg
          \<or> rep = reply_to now (JStr ''is_complete_reply'') (content rep) msg
          \<or> rep = reply_to now (JStr ''shutdown_reply'') (content rep) msg)
       \<and> evs = [Send s rep f] \<and> r = None"
proof -
  let ?t = "js_prop (header msg) ''msg_type''"
  note hc = handle_cases [OF assms(1,2), of nd srv now sock h]
  note re = route_eq [OF assms(1,2), of nd srv now sock h]
  show ?thesis
  proof (cases "?t = JStr ''kernel_info_request''")
    case True
    then have "route nd srv now sock msg h = ZmqServer_handleKernelInfo nd srv now sock msg h"
      by (simp add: re)
    from reply_shape_Send [OF assms(3) [unfolded this hc(1)] assms(4)] show ?thesis by simp
  next
    case k: False
    show ?thesis
    proof (cases "?t = JStr ''execute_request''")
      case True
      with k have "route nd srv now sock msg h = ZmqServer_handleExecute nd srv now sock msg h"
        by (simp add: re)
      from reply_shape_Send [OF assms(3) [unfolded this hc(2)] assms(4)] show ?thesis by simp
    next
      case e: False
      show ?thesis
      proof (cases "?t = JStr ''is_complete_request''")
        case True
        with k e
        have "route nd srv now sock msg h = ZmqServer_handleIsComplete nd srv now sock msg h"
          by (simp add: re)
        from reply_shape_Send [OF assms(3) [unfolded this hc(3)] assms(4)] show ?thesis by simp
      next
        case c: False
        show ?thesis
        proof (cases "?t = JStr ''shutdown_request''")
          case True
          with k e c
          have "route nd srv now sock msg h = ZmqServer_handleShutdown nd srv now sock msg h"
            by (simp add: re)
          from reply_shape_Send [OF assms(3) [unfolded this hc(4)] assms(4)] show ?thesis by simp
        next
          case False
          with k e c have "route nd srv now sock msg h
              = (None, h, [Warn (''unknown msg_type: '' @ js_String nd ?t)])"
            by (simp add: re)
          with assms(3) have "evs = [Warn (''unknown msg_type: '' @ js_String nd ?t)]"
            by simp
          with assms(4) show ?thesis by simp
        qed
      qed
    qed
  qed
qed


lemma handleShellMessage_Inl:
  "fromRaw nd (key (connInfo srv)) raw = Inl e \<Longrightarrow>
   handleShellMessage nd srv clock sock raw h = (Some e, h, [])"
  by (simp add: handleShellMessage_def)

lemma handleShellMessage_Inr:
  assumes "fromRaw nd (key (connInfo srv)) raw = Inr msg"
    and "header msg \<noteq> JNull" and "header msg \<noteq> JUndefined"
  shows "handleShellMessage nd srv (t1, t2, t3) sock raw h =
     (fst (route nd srv t2 sock msg h), fst (snd (route nd srv t2 sock msg h)),
      [Send Iopub (reply_to t1 (JStr ''status'') (JObj [(''execution_state'', JStr ''busy'')]) msg)
         (signAndSend_raw nd (key (connInfo srv))
            (reply_to t1 (JStr ''status'') (JObj [(''execution_state'', JStr ''busy'')]) msg))]
        @ snd (snd (route nd srv t2 sock msg h))
        @ [Send Iopub (reply_to t3 (JStr ''status'') (JObj [(''execution_state'', JStr ''idle'')]) msg)
         (signAndSend_raw nd (key (connInfo srv))
            (reply_to t3 (JStr ''status'') (JObj [(''execution_state'', JStr ''idle'')]) msg))])"
  by (simp add: handleShellMessage_def assms(1) publishStatus_eq [OF assms(2,3)]
      split: prod.splits)

lemma handleShellMessage_null:
  assumes "fromRaw nd (key (connInfo srv)) raw = Inr msg"
    and "header msg = JNull \<or> header msg = JUndefined"
  shows "handleShellMessage nd srv (t1, t2, t3) sock raw h = (Some TypeError, h, [])"
  by (simp add: handleShellMessage_def assms(1) publishStatus_null [OF assms(2)])

subsection \<open>The examples\<close>

lemma ex_parse:
  "t \<in> {''kernel_info_request'', ''execute_request'', ''is_complete_request'',
        ''shutdown_request'', ''frobnicate_request''} \<Longrightarrow>
   JSON_parse ex_node (ex_header_text t) = Some (ex_header t)"
  "JSON_parse ex_node ''{}'' = Some (JObj [])"
  "JSON_parse ex_node ''null'' = Some JNull"
  "JSON_parse ex_node ''{\"code\":\"1+1\"}'' = Some (JObj [(''code'', JStr ''1+1'')])"
  "JSON_parse ex_node ''{\"code\":\"boom\"}'' = Some (JObj [(''code'', JStr ''boom'')])"
  "JSON_parse ex_node ''{\"restart\":true}'' = Some (JObj [(''restart'', JBool True)])"
  "JSON_parse ex_node ''{not json'' = None"
  by (auto simp: ex_node_def ex_values_def ex_header_text_def ex_header_def quote_def)

lemma ex_body_tag: "body_tag ex_node ''secret'' (ex_raw sig ht c) = ex_sig ht c"
  by (simp add: body_tag_def ex_raw_def ex_sig_def ex_node_def)

lemma ex_fromRaw:
  assumes "JSON_parse ex_node ht = Some hv" and "JSON_parse ex_node c = Some cv"
  shows "fromRaw ex_node ''secret'' (ex_raw (ex_sig ht c) ht c) = Inr (ex_msg (ex_sig ht c) hv cv)"
proof -
  let ?raw = "ex_raw (ex_sig ht c) ht c"
  have "fromRaw ex_node ''secret'' ?raw =
     (if body_tag ex_node ''secret'' ?raw = Buffer_toString ex_node (?raw ! 2)
      then Inr \<lparr>identity = Buffer_toString ex_node (?raw ! 0),
            delim = Buffer_toString ex_node (?raw ! 1),
            hmac = Buffer_toString ex_node (?raw ! 2), header = hv,
            parent = JObj [], metadata = JObj [], content = cv, extra = drop 7 ?raw\<rparr>
      else Inl (Error (''invalid hmac '' @ Buffer_toString ex_node (?raw ! 2) @ ''; want ''
             @ body_tag ex_node ''secret'' ?raw)))"
    using assms
    by (intro fromRaw_parsed) (simp_all add: ex_raw_def ex_parse)
  then show ?thesis
    by (simp add: ex_body_tag) (simp add: ex_raw_def ex_msg_def)
qed

lemma ex_binary_frame:
  "Buffer_toString ex_node (Binary [CHR 0xFF, CHR ''A''])
     = [CHR 0xEF, CHR 0xBF, CHR 0xBD, CHR ''A'']"
  by (simp add: ex_node_def ex_decode_lossy_def)

lemma ex_key: "key (connInfo ex_srv) = ''secret''"
  by (simp add: ex_srv_def ex_conn_def)

lemma ex_handler: "handler ex_srv = JupyterHandlerImpl_handler ex_node ex_collab"
  by (simp add: ex_srv_def)

lemma ex_header_props:
  "ex_header t \<noteq> JNull" "ex_header t \<noteq> JUndefined"
  "get_prop (ex_header t) ''msg_type'' = Inr (JStr t)"
  "js_prop (ex_header t) ''msg_type'' = JStr t"
  "js_prop (ex_header t) ''msg_id'' = JStr ''m1''"
  "js_prop (ex_header t) ''session'' = JStr ''s1''"
  "js_prop (ex_header t) ''username'' = JStr ''u''"
  by (simp_all add: ex_header_def js_prop_def)

lemma ex_decode:
  assumes "t \<in> {''kernel_info_request'', ''execute_request'', ''is_complete_request'',
        ''shutdown_request'', ''frobnicate_request''}"
    and "JSON_parse ex_node c = Some cv"
  shows "fromRaw ex_node (key (connInfo ex_srv)) (ex_request t c) = Inr (ex_decoded t c cv)"
  unfolding ex_request_def ex_decoded_def ex_key
  by (rule ex_fromRaw [OF ex_parse(1) [OF assms(1)] assms(2)])

lemma ex_decoded_fields:
  "header (ex_decoded t c cv) = ex_header t"
  "content (ex_decoded t c cv) = cv"
  "identity (ex_decoded t c cv) = ''client''"
  "delim (ex_decoded t c cv) = ''<IDS|MSG>''"
  "parent (ex_decoded t c cv) = JObj []"
  by (simp_all add: ex_decoded_def ex_msg_def)

lemma ex_main: "main cmd x = \<lparr>ts = True, execCount = 0, engine = x, console_log = []\<rparr>"
  by (simp add: main_def JupyterHandlerImpl_new_def)

section \<open>Status bracketing\<close>

text \<open>
  Claim C2, as amended. For every request that decodes successfully and whose header
  is not \<open>null\<close> (nor \<open>undefined\<close>, which \<open>JSON.parse\<close> never returns),
  \<open>handleShellMessage\<close> on a request socket (not the iopub socket itself) sends, in
  this order: one status message with content \<open>execution_state = busy\<close> on iopub, then
  the events of routing, then one status message with content
  \<open>execution_state = idle\<close> on iopub. Both carry the request's header as parent header
  and \<open>msg_type = status\<close>, and they are the only busy and the only idle status among
  the events. This holds whatever the routed handler does, also when it throws (the
  first component of \<open>route\<close> is then the exception).
\<close>

theorem status_bracketing:
  assumes "fromRaw nd (key (connInfo srv)) raw = Inr msg"
    and "header msg \<noteq> JNull" and "header msg \<noteq> JUndefined"
    and "sock \<noteq> Iopub"
  shows "\<exists>busy idle.
       handleShellMessage nd srv (t1, t2, t3) sock raw h =
         (fst (route nd srv t2 sock msg h), fst (snd (route nd srv t2 sock msg h)),
          [Send Iopub busy (signAndSend_raw nd (key (connInfo srv)) busy)]
            @ snd (snd (route nd srv t2 sock msg h))
            @ [Send Iopub idle (signAndSend_raw nd (key (connInfo srv)) idle)])
     \<and> content busy = JObj [(''execution_state'', JStr ''busy'')]
     \<and> content idle = JObj [(''execution_state'', JStr ''idle'')]
     \<and> parent busy = header msg \<and> parent idle = header msg
     \<and> get_prop (header busy) ''msg_type'' = Inr (JStr ''status'')
     \<and> get_prop (header idle) ''msg_type'' = Inr (JStr ''status'')
     \<and> filter (is_status ''busy'') (snd (snd (handleShellMessage nd srv (t1, t2, t3) sock raw h)))
         = [Send Iopub busy (signAndSend_raw nd (key (connInfo srv)) busy)]
     \<and> filter (is_status ''idle'') (snd (snd (handleShellMessage nd srv (t1, t2, t3) sock raw h)))
         = [Send Iopub idle (signAndSend_raw nd (key (connInfo srv)) idle)]"
proof -
  obtain r h' mid where rt: "route nd srv t2 sock msg h = (r, h', mid)"
    by (cases "route nd srv t2 sock msg h") auto
  have nost: "filter (is_status st) mid = []" for st
  proof -
    have "\<not> is_status st e" if "e \<in> set mid" for e
    proof (cases e)
      case (Send s m f)
      with that route_Send [OF assms(2,3) rt] have "s = sock" by blast
      with assms(4) Send show ?thesis by simp
    next
      case (Warn w)
      then show ?thesis by simp
    qed
    then show ?thesis by (simp add: filter_empty_conv)
  qed
  let ?busy = "reply_to t1 (JStr ''status'') (JObj [(''execution_state'', JStr ''busy'')]) msg"
  let ?idle = "reply_to t3 (JStr ''status'') (JObj [(''execution_state'', JStr ''idle'')]) msg"
  show ?thesis
    unfolding handleShellMessage_Inr [OF assms(1-3)] rt
    by (rule exI [of _ ?busy], rule exI [of _ ?idle]) (simp add: nost reply_to_fields)
qed

theorem status_bracketing_witness:
  "fromRaw ex_node (key (connInfo ex_srv))
      (ex_raw (ex_sig (ex_header_text ''execute_request'') ''null'')
         (ex_header_text ''execute_request'') ''null'')
     = Inr (ex_msg (ex_sig (ex_header_text ''execute_request'') ''null'')
              (ex_header ''execute_request'') JNull)
   \<and> ex_header ''execute_request'' \<noteq> JNull \<and> ex_header ''execute_request'' \<noteq> JUndefined
   \<and> Shell \<noteq> Iopub
   \<and> (\<exists>busy idle.
        handleShellMessage ex_node ex_srv (''t1'', ''t2'', ''t3'') Shell
          (ex_raw (ex_sig (ex_header_text ''execute_request'') ''null'')
             (ex_header_text ''execute_request'') ''null'')
          (main ''tslab'' (0::nat))
        = (Some TypeError, main ''tslab'' 0,
           [Send Iopub busy (signAndSend_raw ex_node ''secret'' busy),
            Send Iopub idle (signAndSend_raw ex_node ''secret'' idle)])
      \<and> content busy = JObj [(''execution_state'', JStr ''busy'')]
      \<and> content idle = JObj [(''execution_state'', JStr ''idle'')]
      \<and> parent busy = ex_header ''execute_request''
      \<and> parent idle = ex_header ''execute_request'')"
proof -
  let ?raw = "ex_raw (ex_sig (ex_header_text ''execute_request'') ''null'')
         (ex_header_text ''execute_request'') ''null''"
  let ?msg = "ex_msg (ex_sig (ex_header_text ''execute_request'') ''null'')
              (ex_header ''execute_request'') JNull"
  have dec: "fromRaw ex_node (key (connInfo ex_srv)) ?raw = Inr ?msg"
    by (simp add: ex_key ex_fromRaw ex_parse)
  have hd: "header ?msg \<noteq> JNull" "header ?msg \<noteq> JUndefined"
    by (simp_all add: ex_msg_def ex_header_props)
  have hm: "header ?msg = ex_header ''execute_request''" "content ?msg = JNull"
    by (simp_all add: ex_msg_def)
  have rt: "route ex_node ex_srv ''t2'' Shell ?msg (main ''tslab'' 0)
      = (Some TypeError, main ''tslab'' 0, [])"
    by (simp add: route_eq [OF hd] handle_cases [OF hd] hm ex_header_props ex_handler
        JupyterHandlerImpl_handler_def JupyterHandlerImpl_handleExecute_def)
  have "Shell \<noteq> Iopub" by simp
  from status_bracketing [OF dec hd this, of "''t1''" "''t2''" "''t3''" "main ''tslab'' 0"]
  have "\<exists>busy idle.
        handleShellMessage ex_node ex_srv (''t1'', ''t2'', ''t3'') Shell ?raw (main ''tslab'' 0)
        = (Some TypeError, main ''tslab'' 0,
           [Send Iopub busy (signAndSend_raw ex_node ''secret'' busy),
            Send Iopub idle (signAndSend_raw ex_node ''secret'' idle)])
      \<and> content busy = JObj [(''execution_state'', JStr ''busy'')]
      \<and> content idle = JObj [(''execution_state'', JStr ''idle'')]
      \<and> parent busy = ex_header ''execute_request''
      \<and> parent idle = ex_header ''execute_request''"
    unfolding rt ex_key hm by simp blast
  with dec show ?thesis
    by (simp add: ex_header_props)
qed

text \<open>
  Claim C2 as stated fails on a correctly signed request whose header frame is the JSON
  text \<open>null\<close>: it decodes, \<open>createReply\<close> throws in the first \<open>publishStatus\<close>, before
  the \<open>try\<close> block, and neither a busy nor an idle status is published.
\<close>

theorem status_bracketing_counterexample:
  "fromRaw ex_node (key (connInfo ex_srv)) (ex_raw (ex_sig ''null'' ''{}'') ''null'' ''{}'')
     = Inr (ex_msg (ex_sig ''null'' ''{}'') JNull (JObj []))
   \<and> handleShellMessage ex_node ex_srv (''t1'', ''t2'', ''t3'') Shell
        (ex_raw (ex_sig ''null'' ''{}'') ''null'' ''{}'') (main ''tslab'' (0::nat))
     = (Some TypeError, main ''tslab'' 0, [])"
proof -
  have dec: "fromRaw ex_node (key (connInfo ex_srv)) (ex_raw (ex_sig ''null'' ''{}'') ''null'' ''{}'')
     = Inr (ex_msg (ex_sig ''null'' ''{}'') JNull (JObj []))"
    by (simp add: ex_key ex_fromRaw ex_parse)
  have "header (ex_msg (ex_sig ''null'' ''{}'') JNull (JObj [])) = JNull
      \<or> header (ex_msg (ex_sig ''null'' ''{}'') JNull (JObj [])) = JUndefined"
    by (simp add: ex_msg_def)
  from handleShellMessage_null [OF dec this] dec show ?thesis
    by simp
qed

section \<open>Unrecognized message types\<close>



section \<open>Reply linkage\<close>




section \<open>The msg_id of a reply\<close>

text \<open>
  Claim C3, as amended. \<open>createReply\<close> does not generate a msg_id. It returns a reply
  for every message whose header is not \<open>null\<close>; the header of the reply has the
  request's \<open>session\<close>, \<open>username\<close>, \<open>msg_type\<close> and \<open>msg_id\<close>, and \<open>version\<close> and \<open>date\<close>
  set anew, so the reply's \<open>header.msg_id\<close> equals the request's. The same holds for
  every message (status or reply) that \<open>handleShellMessage\<close> sends for a decoded request.
\<close>

theorem reply_msg_id_copied:
  "(header m \<noteq> JNull \<and> header m \<noteq> JUndefined \<longrightarrow> (\<exists>r. createReply now m = Inr r))
   \<and> (createReply now m = Inr r0 \<longrightarrow>
        get_prop (header r0) ''msg_id'' = get_prop (header m) ''msg_id''
      \<and> get_prop (header r0) ''session'' = get_prop (header m) ''session''
      \<and> get_prop (header r0) ''username'' = get_prop (header m) ''username''
      \<and> get_prop (header r0) ''msg_type'' = get_prop (header m) ''msg_type''
      \<and> get_prop (header r0) ''version'' = Inr (JStr ''5.3'')
      \<and> get_prop (header r0) ''date'' = Inr (JStr now)
      \<and> (\<exists>se us mt mi. header r0 = JObj [(''version'', JStr ''5.3''), (''date'', JStr now),
             (''session'', se), (''username'', us), (''msg_type'', mt), (''msg_id'', mi)]))
   \<and> (fromRaw nd (key (connInfo srv)) raw = Inr msg
        \<and> Send s rep f \<in> set (snd (snd (handleShellMessage nd srv (t1, t2, t3) sock raw h)))
      \<longrightarrow> get_prop (header rep) ''msg_id'' = get_prop (header msg) ''msg_id'')"
proof (intro conjI impI)
  assume "header m \<noteq> JNull \<and> header m \<noteq> JUndefined"
  then show "\<exists>r. createReply now m = Inr r"
    by (simp add: createReply_eq)
next
  assume a: "createReply now m = Inr r0"
  have hd: "header m \<noteq> JNull \<and> header m \<noteq> JUndefined"
  proof (rule ccontr)
    assume "\<not> (header m \<noteq> JNull \<and> header m \<noteq> JUndefined)"
    then have "header m = JNull \<or> header m = JUndefined" by blast
    from createReply_null [OF this, of now] a show False by simp
  qed
  then have hd1: "header m \<noteq> JNull" and hd2: "header m \<noteq> JUndefined"
    by simp_all
  from a have r0: "r0 = reply_to now (js_prop (header m) ''msg_type'') (JObj []) m"
    by (simp add: createReply_eq [OF hd1 hd2])
  show "get_prop (header r0) ''msg_id'' = get_prop (header m) ''msg_id''"
    "get_prop (header r0) ''session'' = get_prop (header m) ''session''"
    "get_prop (header r0) ''username'' = get_prop (header m) ''username''"
    "get_prop (header r0) ''msg_type'' = get_prop (header m) ''msg_type''"
    "get_prop (header r0) ''version'' = Inr (JStr ''5.3'')"
    "get_prop (header r0) ''date'' = Inr (JStr now)"
    by (simp_all add: r0 reply_to_fields get_prop_js_prop [OF hd1 hd2])
  show "\<exists>se us mt mi. header r0 = JObj [(''version'', JStr ''5.3''), (''date'', JStr now),
             (''session'', se), (''username'', us), (''msg_type'', mt), (''msg_id'', mi)]"
    by (simp add: r0 reply_to_def)
next
  assume a: "fromRaw nd (key (connInfo srv)) raw = Inr msg
        \<and> Send s rep f \<in> set (snd (snd (handleShellMessage nd srv (t1, t2, t3) sock raw h)))"
  then have dec: "fromRaw nd (key (connInfo srv)) raw = Inr msg"
    and mem: "Send s rep f \<in> set (snd (snd (handleShellMessage nd srv (t1, t2, t3) sock raw h)))"
    by simp_all
  have hd: "header msg \<noteq> JNull \<and> header msg \<noteq> JUndefined"
  proof (rule ccontr)
    assume "\<not> (header msg \<noteq> JNull \<and> header msg \<noteq> JUndefined)"
    then have "header msg = JNull \<or> header msg = JUndefined" by blast
    from handleShellMessage_null [OF dec this] mem show False by simp
  qed
  then have hd1: "header msg \<noteq> JNull" and hd2: "header msg \<noteq> JUndefined"
    by simp_all
  obtain r h' mid where rt: "route nd srv t2 sock msg h = (r, h', mid)"
    by (cases "route nd srv t2 sock msg h") auto
  from mem have "Send s rep f \<in> set mid
      \<or> rep = reply_to t1 (JStr ''status'') (JObj [(''execution_state'', JStr ''busy'')]) msg
      \<or> rep = reply_to t3 (JStr ''status'') (JObj [(''execution_state'', JStr ''idle'')]) msg"
    unfolding handleShellMessage_Inr [OF dec hd1 hd2] rt by auto
  then have "\<exists>t c. rep = reply_to t c (content rep) msg"
  proof (elim disjE)
    assume "Send s rep f \<in> set mid"
    from route_Send [OF hd1 hd2 rt this] show ?thesis by blast
  next
    assume r: "rep = reply_to t1 (JStr ''status'') (JObj [(''execution_state'', JStr ''busy'')]) msg"
    have "content rep = JObj [(''execution_state'', JStr ''busy'')]"
      by (subst r) (simp add: reply_to_fields)
    with r show ?thesis by metis
  next
    assume r: "rep = reply_to t3 (JStr ''status'') (JObj [(''execution_state'', JStr ''idle'')]) msg"
    have "content rep = JObj [(''execution_state'', JStr ''idle'')]"
      by (subst r) (simp add: reply_to_fields)
    with r show ?thesis by metis
  qed
  then obtain t c where rep: "rep = reply_to t c (content rep) msg" by blast
  have "get_prop (header rep) ''msg_id'' = Inr (js_prop (header msg) ''msg_id'')"
    by (subst rep) (simp add: reply_to_fields)
  then show "get_prop (header rep) ''msg_id'' = get_prop (header msg) ''msg_id''"
    by (simp add: get_prop_js_prop [OF hd1 hd2])
qed

theorem reply_msg_id_copied_witness:
  "header (ex_decoded ''is_complete_request'' ''{}'' (JObj [])) \<noteq> JNull
   \<and> header (ex_decoded ''is_complete_request'' ''{}'' (JObj [])) \<noteq> JUndefined
   \<and> (\<exists>r. createReply ''t2'' (ex_decoded ''is_complete_request'' ''{}'' (JObj [])) = Inr r)
   \<and> createReply ''t2'' (ex_decoded ''is_complete_request'' ''{}'' (JObj []))
       = Inr (reply_to ''t2'' (JStr ''is_complete_request'') (JObj [])
                (ex_decoded ''is_complete_request'' ''{}'' (JObj [])))
   \<and> get_prop (header (reply_to ''t2'' (JStr ''is_complete_request'') (JObj [])
                (ex_decoded ''is_complete_request'' ''{}'' (JObj [])))) ''msg_id''
       = Inr (JStr ''m1'')
   \<and> get_prop (header (ex_decoded ''is_complete_request'' ''{}'' (JObj []))) ''msg_id''
       = Inr (JStr ''m1'')
   \<and> fromRaw ex_node (key (connInfo ex_srv)) (ex_request ''is_complete_request'' ''{}'')
       = Inr (ex_decoded ''is_complete_request'' ''{}'' (JObj []))
   \<and> handleShellMessage ex_node ex_srv (''t1'', ''t2'', ''t3'') Shell
         (ex_request ''is_complete_request'' ''{}'') (main ''tslab'' (0::nat))
       = (None, main ''tslab'' 0,
          [ex_status ''t1'' ''busy'' (ex_decoded ''is_complete_request'' ''{}'' (JObj [])),
           ex_reply Shell ''t2'' ''is_complete_reply'' (JObj [(''status'', JStr ''complete'')])
             (ex_decoded ''is_complete_request'' ''{}'' (JObj [])),
           ex_status ''t3'' ''idle'' (ex_decoded ''is_complete_request'' ''{}'' (JObj []))])
   \<and> get_prop (header (reply_to ''t2'' (JStr ''is_complete_reply'')
                  (JObj [(''status'', JStr ''complete'')])
                  (ex_decoded ''is_complete_request'' ''{}'' (JObj [])))) ''msg_id''
       = Inr (JStr ''m1'')"
proof -
  let ?raw = "ex_request ''is_complete_request'' ''{}''"
  let ?msg = "ex_decoded ''is_complete_request'' ''{}'' (JObj [])"
  let ?h0 = "main ''tslab'' (0::nat)"
  let ?r0 = "reply_to ''t2'' (JStr ''is_complete_request'') (JObj []) ?msg"
  let ?rep = "reply_to ''t2'' (JStr ''is_complete_reply'') (JObj [(''status'', JStr ''complete'')]) ?msg"
  let ?f = "signAndSend_raw ex_node ''secret'' ?rep"
  note T = reply_msg_id_copied [of ?msg "''t2''" ?r0 ex_node ex_srv ?raw ?msg Shell ?rep ?f
      "''t1''" "''t2''" "''t3''" Shell ?h0]
  have hd: "header ?msg \<noteq> JNull" "header ?msg \<noteq> JUndefined"
    by (simp_all add: ex_decoded_fields ex_header_props)
  have mid: "get_prop (header ?msg) ''msg_id'' = Inr (JStr ''m1'')"
    by (simp add: ex_decoded_fields ex_header_props get_prop_js_prop [OF ex_header_props(1,2)])
  have dec: "fromRaw ex_node (key (connInfo ex_srv)) ?raw = Inr ?msg"
    by (rule ex_decode) (simp_all add: ex_parse)
  have cr: "createReply ''t2'' ?msg = Inr ?r0"
    by (simp add: createReply_eq [OF hd] ex_decoded_fields ex_header_props)
  have rt: "route ex_node ex_srv ''t2'' Shell ?msg ?h0 = (None, ?h0, [Send Shell ?rep ?f])"
    by (simp add: route_eq [OF hd] handle_cases [OF hd] ex_decoded_fields ex_header_props
        ex_handler ex_key JupyterHandlerImpl_handler_def JupyterHandlerImpl_handleIsComplete_def)
  have run: "handleShellMessage ex_node ex_srv (''t1'', ''t2'', ''t3'') Shell ?raw ?h0
      = (None, ?h0, [ex_status ''t1'' ''busy'' ?msg,
           ex_reply Shell ''t2'' ''is_complete_reply'' (JObj [(''status'', JStr ''complete'')]) ?msg,
           ex_status ''t3'' ''idle'' ?msg])"
    by (simp add: handleShellMessage_Inr [OF dec hd] rt ex_key ex_status_def ex_reply_def)
  have mem: "Send Shell ?rep ?f
      \<in> set (snd (snd (handleShellMessage ex_node ex_srv (''t1'', ''t2'', ''t3'') Shell ?raw ?h0)))"
    by (simp add: run ex_reply_def)
  from T [THEN conjunct1, THEN mp, OF conjI [OF hd]]
  have 1: "\<exists>r. createReply ''t2'' ?msg = Inr r" .
  from T [THEN conjunct2, THEN conjunct1, THEN mp, OF cr]
  have "get_prop (header ?r0) ''msg_id'' = get_prop (header ?msg) ''msg_id''"
    by (rule conjunct1)
  then have 2: "get_prop (header ?r0) ''msg_id'' = Inr (JStr ''m1'')"
    by (simp only: mid)
  from T [THEN conjunct2, THEN conjunct2, THEN mp, OF conjI [OF dec mem]]
  have 3: "get_prop (header ?rep) ''msg_id'' = Inr (JStr ''m1'')"
    by (simp only: mid)
  show ?thesis
    by (intro conjI hd 1 cr 2 mid dec run 3)
qed

text \<open>
  Claim C3 as stated fails: for the example request, \<open>createReply\<close> returns a reply
  whose \<open>msg_id\<close> is \<open>m1\<close>, the \<open>msg_id\<close> of the request.
\<close>

theorem reply_msg_id_fresh_counterexample:
  "createReply ''2020-01-01T00:00:01.000Z''
      (ex_decoded ''execute_request'' ''{\"code\":\"1+1\"}'' (JObj [(''code'', JStr ''1+1'')]))
     = Inr \<lparr>identity = ''client'', delim = ''<IDS|MSG>'', hmac = [],
            header = JObj [(''version'', JStr ''5.3''),
                           (''date'', JStr ''2020-01-01T00:00:01.000Z''),
                           (''session'', JStr ''s1''),
                           (''username'', JStr ''u''),
                           (''msg_type'', JStr ''execute_request''),
                           (''msg_id'', JStr ''m1'')],
            parent = ex_header ''execute_request'', metadata = JObj [], content = JObj [],
            extra = []\<rparr>
   \<and> get_prop (header (ex_decoded ''execute_request'' ''{\"code\":\"1+1\"}''
                  (JObj [(''code'', JStr ''1+1'')]))) ''msg_id'' = Inr (JStr ''m1'')"
  by (simp add: createReply_def andThen_def ex_decoded_fields ex_header_def)

section \<open>The handler\<close>

lemma impl_handleExecute_cases:
  assumes "JupyterHandlerImpl_handleExecute C req st = (res, st')"
  shows "(res = Inl TypeError \<and> st' = st)
       \<or> (res = Inr (JObj [(''status'', JStr ''ok''),
                           (''execution_count'', JNum (int (js_incr (execCount st))))])
          \<and> execCount st' = js_incr (execCount st))"
proof (cases "get_prop req ''code''")
  case (Inl e)
  from get_prop_Inl [OF this] have "e = TypeError" by simp
  with Inl assms show ?thesis
    by (simp add: JupyterHandlerImpl_handleExecute_def)
next
  case (Inr code)
  with assms show ?thesis
    by (auto simp: JupyterHandlerImpl_handleExecute_def Let_def split: prod.splits)
qed

lemma execCount_bounded:
  assumes "execCount st \<le> 2 ^ 53"
  shows "execCount (snd (JupyterHandlerImpl_handleExecute C req st)) \<le> 2 ^ 53"
proof -
  obtain res st' where ex: "JupyterHandlerImpl_handleExecute C req st = (res, st')"
    by (cases "JupyterHandlerImpl_handleExecute C req st") auto
  from impl_handleExecute_cases [OF ex] assms show ?thesis
    by (auto simp: ex js_incr_def)
qed

text \<open>
  Claim C10. \<open>JupyterHandlerImpl.handleShutdown\<close> returns the content
  \<open>{restart: false}\<close> for every request content, whatever restart flag it holds.
  \<open>ZmqServer.handleShutdown\<close>, run with this handler on a message whose header is not
  \<open>null\<close> (the dispatcher calls it only after it has read \<open>header.msg_type\<close>), sends on
  the request's socket one \<open>shutdown_reply\<close> whose content is \<open>{restart: false}\<close>. And
  for every decoded request whose \<open>msg_type\<close> is \<open>shutdown_request\<close>,
  \<open>handleShellMessage\<close> ends without an exception and sends the busy status, that
  reply, and the idle status.
\<close>

theorem shutdown_reply_restart_false:
  "fst (JupyterHandlerImpl_handleShutdown nd C req st) = Inr (JObj [(''restart'', JBool False)])
   \<and> (header msg \<noteq> JNull \<and> header msg \<noteq> JUndefined \<longrightarrow>
       ZmqServer_handleShutdown nd \<lparr>handler = JupyterHandlerImpl_handler nd C, connInfo = ci\<rparr>
          now sock msg h
       = (None, snd (JupyterHandlerImpl_handleShutdown nd C (content msg) h),
          [Send sock (reply_to now (JStr ''shutdown_reply'') (JObj [(''restart'', JBool False)]) msg)
             (signAndSend_raw nd (key ci)
                (reply_to now (JStr ''shutdown_reply'') (JObj [(''restart'', JBool False)]) msg))]))
   \<and> (fromRaw nd (key ci) raw = Inr req_msg
        \<and> get_prop (header req_msg) ''msg_type'' = Inr (JStr ''shutdown_request'') \<longrightarrow>
       handleShellMessage nd \<lparr>handler = JupyterHandlerImpl_handler nd C, connInfo = ci\<rparr>
          (t1, t2, t3) sock raw h
       = (None, snd (JupyterHandlerImpl_handleShutdown nd C (content req_msg) h),
          [Send Iopub
             (reply_to t1 (JStr ''status'') (JObj [(''execution_state'', JStr ''busy'')]) req_msg)
             (signAndSend_raw nd (key ci)
                (reply_to t1 (JStr ''status'') (JObj [(''execution_state'', JStr ''busy'')]) req_msg)),
           Send sock
             (reply_to t2 (JStr ''shutdown_reply'') (JObj [(''restart'', JBool False)]) req_msg)
             (signAndSend_raw nd (key ci)
                (reply_to t2 (JStr ''shutdown_reply'') (JObj [(''restart'', JBool False)]) req_msg)),
           Send Iopub
             (reply_to t3 (JStr ''status'') (JObj [(''execution_state'', JStr ''idle'')]) req_msg)
             (signAndSend_raw nd (key ci)
                (reply_to t3 (JStr ''status'') (JObj [(''execution_state'', JStr ''idle'')]) req_msg))]))"
proof (intro conjI impI)
  show "fst (JupyterHandlerImpl_handleShutdown nd C req st) = Inr (JObj [(''restart'', JBool False)])"
    by (simp add: JupyterHandlerImpl_handleShutdown_def Let_def)
next
  assume "header msg \<noteq> JNull \<and> header msg \<noteq> JUndefined"
  then have hd: "header msg \<noteq> JNull" "header msg \<noteq> JUndefined"
    by simp_all
  show "ZmqServer_handleShutdown nd \<lparr>handler = JupyterHandlerImpl_handler nd C, connInfo = ci\<rparr>
          now sock msg h
       = (None, snd (JupyterHandlerImpl_handleShutdown nd C (content msg) h),
          [Send sock (reply_to now (JStr ''shutdown_reply'') (JObj [(''restart'', JBool False)]) msg)
             (signAndSend_raw nd (key ci)
                (reply_to now (JStr ''shutdown_reply'') (JObj [(''restart'', JBool False)]) msg))])"
    by (simp add: handle_cases [OF hd] JupyterHandlerImpl_handler_def
        JupyterHandlerImpl_handleShutdown_def Let_def)
next
  let ?srv = "\<lparr>handler = JupyterHandlerImpl_handler nd C, connInfo = ci\<rparr>"
  assume a: "fromRaw nd (key ci) raw = Inr req_msg
        \<and> get_prop (header req_msg) ''msg_type'' = Inr (JStr ''shutdown_request'')"
  then have dec: "fromRaw nd (key (connInfo ?srv)) raw = Inr req_msg"
    and g: "get_prop (header req_msg) ''msg_type'' = Inr (JStr ''shutdown_request'')"
    by simp_all
  from get_prop_InrD [OF g]
  have hd: "header req_msg \<noteq> JNull" "header req_msg \<noteq> JUndefined"
    and ty: "js_prop (header req_msg) ''msg_type'' = JStr ''shutdown_request''"
    by simp_all
  have rt: "route nd ?srv t2 sock req_msg h
      = (None, snd (JupyterHandlerImpl_handleShutdown nd C (content req_msg) h),
         [Send sock
             (reply_to t2 (JStr ''shutdown_reply'') (JObj [(''restart'', JBool False)]) req_msg)
             (signAndSend_raw nd (key ci)
                (reply_to t2 (JStr ''shutdown_reply'') (JObj [(''restart'', JBool False)]) req_msg))])"
    by (simp add: route_eq [OF hd] ty handle_cases [OF hd] JupyterHandlerImpl_handler_def
        JupyterHandlerImpl_handleShutdown_def Let_def)
  show "handleShellMessage nd ?srv (t1, t2, t3) sock raw h
       = (None, snd (JupyterHandlerImpl_handleShutdown nd C (content req_msg) h),
          [Send Iopub
             (reply_to t1 (JStr ''status'') (JObj [(''execution_state'', JStr ''busy'')]) req_msg)
             (signAndSend_raw nd (key ci)
                (reply_to t1 (JStr ''status'') (JObj [(''execution_state'', JStr ''busy'')]) req_msg)),
           Send sock
             (reply_to t2 (JStr ''shutdown_reply'') (JObj [(''restart'', JBool False)]) req_msg)
             (signAndSend_raw nd (key ci)
                (reply_to t2 (JStr ''shutdown_reply'') (JObj [(''restart'', JBool False)]) req_msg)),
           Send Iopub
             (reply_to t3 (JStr ''status'') (JObj [(''execution_state'', JStr ''idle'')]) req_msg)
             (signAndSend_raw nd (key ci)
                (reply_to t3 (JStr ''status'') (JObj [(''execution_state'', JStr ''idle'')]) req_msg))])"
    unfolding handleShellMessage_Inr [OF dec hd] rt by simp
qed

theorem shutdown_reply_restart_false_witness:
  "fst (JupyterHandlerImpl_handleShutdown ex_node ex_collab (JObj [(''restart'', JBool True)])
          (main ''tslab'' (0::nat)))
     = Inr (JObj [(''restart'', JBool False)])
   \<and> header (ex_decoded ''shutdown_request'' ''{\"restart\":true}'' (JObj [(''restart'', JBool True)]))
       \<noteq> JNull
   \<and> header (ex_decoded ''shutdown_request'' ''{\"restart\":true}'' (JObj [(''restart'', JBool True)]))
       \<noteq> JUndefined
   \<and> ZmqServer_handleShutdown ex_node ex_srv ''t2'' Control
        (ex_decoded ''shutdown_request'' ''{\"restart\":true}'' (JObj [(''restart'', JBool True)]))
        (main ''tslab'' (0::nat))
     = (None,
        \<lparr>ts = True, execCount = 0, engine = 0,
          console_log = [''shutdown_request: {\"restart\":true}'']\<rparr>,
        [ex_reply Control ''t2'' ''shutdown_reply'' (JObj [(''restart'', JBool False)])
           (ex_decoded ''shutdown_request'' ''{\"restart\":true}'' (JObj [(''restart'', JBool True)]))])
   \<and> fromRaw ex_node (key ex_conn) (ex_request ''shutdown_request'' ''{\"restart\":true}'')
       = Inr (ex_decoded ''shutdown_request'' ''{\"restart\":true}'' (JObj [(''restart'', JBool True)]))
   \<and> get_prop (header (ex_decoded ''shutdown_request'' ''{\"restart\":true}''
                  (JObj [(''restart'', JBool True)]))) ''msg_type''
       = Inr (JStr ''shutdown_request'')
   \<and> handleShellMessage ex_node ex_srv (''t1'', ''t2'', ''t3'') Control
        (ex_request ''shutdown_request'' ''{\"restart\":true}'') (main ''tslab'' (0::nat))
     = (None,
        \<lparr>ts = True, execCount = 0, engine = 0,
          console_log = [''shutdown_request: {\"restart\":true}'']\<rparr>,
        [ex_status ''t1'' ''busy''
           (ex_decoded ''shutdown_request'' ''{\"restart\":true}'' (JObj [(''restart'', JBool True)])),
         ex_reply Control ''t2'' ''shutdown_reply'' (JObj [(''restart'', JBool False)])
           (ex_decoded ''shutdown_request'' ''{\"restart\":true}'' (JObj [(''restart'', JBool True)])),
         ex_status ''t3'' ''idle''
           (ex_decoded ''shutdown_request'' ''{\"restart\":true}'' (JObj [(''restart'', JBool True)]))])"
proof -
  let ?raw = "ex_request ''shutdown_request'' ''{\"restart\":true}''"
  let ?cv = "JObj [(''restart'', JBool True)]"
  let ?msg = "ex_decoded ''shutdown_request'' ''{\"restart\":true}'' ?cv"
  let ?h0 = "main ''tslab'' (0::nat)"
  let ?hS = "\<lparr>ts = True, execCount = 0, engine = 0::nat,
            console_log = [''shutdown_request: {\"restart\":true}'']\<rparr>"
  note T = shutdown_reply_restart_false [of ex_node ex_collab ?cv ?h0 ?msg ex_conn "''t2''" Control
      ?h0 ?raw ?msg "''t1''" "''t2''" "''t3''"]
  have srv: "\<lparr>handler = JupyterHandlerImpl_handler ex_node ex_collab, connInfo = ex_conn\<rparr> = ex_srv"
    by (simp add: ex_srv_def)
  have kc: "key ex_conn = ''secret''"
    by (simp add: ex_conn_def)
  have hd: "header ?msg \<noteq> JNull" "header ?msg \<noteq> JUndefined"
    by (simp_all add: ex_decoded_fields ex_header_props)
  have ty: "get_prop (header ?msg) ''msg_type'' = Inr (JStr ''shutdown_request'')"
    by (simp add: ex_decoded_fields ex_header_props)
  have dec: "fromRaw ex_node (key ex_conn) ?raw = Inr ?msg"
    using ex_decode [of "''shutdown_request''" "''{\"restart\":true}''" ?cv]
    by (simp add: ex_parse ex_key kc)
  have st: "snd (JupyterHandlerImpl_handleShutdown ex_node ex_collab (content ?msg) ?h0) = ?hS"
    by (simp add: JupyterHandlerImpl_handleShutdown_def ex_collab_def ex_main ex_node_def
        quote_def ex_decoded_fields)
  from T [THEN conjunct1]
  have 1: "fst (JupyterHandlerImpl_handleShutdown ex_node ex_collab ?cv ?h0)
     = Inr (JObj [(''restart'', JBool False)])" .
  from T [THEN conjunct2, THEN conjunct1, THEN mp, OF conjI [OF hd]]
  have 2: "ZmqServer_handleShutdown ex_node ex_srv ''t2'' Control ?msg ?h0
     = (None, ?hS, [ex_reply Control ''t2'' ''shutdown_reply'' (JObj [(''restart'', JBool False)]) ?msg])"
    unfolding srv st kc ex_reply_def .
  from T [THEN conjunct2, THEN conjunct2, THEN mp, OF conjI [OF dec ty]]
  have 3: "handleShellMessage ex_node ex_srv (''t1'', ''t2'', ''t3'') Control ?raw ?h0
     = (None, ?hS,
        [ex_status ''t1'' ''busy'' ?msg,
         ex_reply Control ''t2'' ''shutdown_reply'' (JObj [(''restart'', JBool False)]) ?msg,
         ex_status ''t3'' ''idle'' ?msg])"
    unfolding srv st kc ex_reply_def ex_status_def .
  show ?thesis
    by (intro conjI 1 hd 2 dec ty 3)
qed

text \<open>
  Claim C9, evaluated where the code departs from it. \<open>main\<close> computes whether the
  command name starts with \<open>ts\<close> and then constructs \<open>JupyterHandlerImpl(true)\<close>
  regardless. For the command name \<open>jslab\<close>, which does not start with \<open>ts\<close>, the
  kernel_info content of the handler \<open>main\<close> builds has \<open>file_extension = .ts\<close> (and
  \<open>implementation = tslab\<close>).
\<close>

theorem kernel_info_invoked_as_jslab:
  "take 2 ''jslab'' \<noteq> ''ts''
   \<and> JupyterHandlerImpl_handleKernel (main ''jslab'' x)
     = JObj [(''protocol_version'', JStr ''5.3''),
             (''implementation'', JStr ''tslab''),
             (''implementation_version'', JStr ''1.0.0''),
             (''language_info'',
                JObj [(''name'', JStr ''javascript''),
                      (''version'', JStr ''''),
                      (''mimetype'', JStr ''''),
                      (''file_extension'', JStr ''.ts'')]),
             (''banner'', JStr ''TypeScript'')]"
  by (simp add: main_def JupyterHandlerImpl_new_def JupyterHandlerImpl_handleKernel_def)

text \<open>
  Claim C6, as amended. With \<open>JupyterHandlerImpl\<close> as the handler, when two
  execute_request messages are handled one after the other, neither handling ends
  with an exception, and the counter \<open>n\<close> before the first request is at most
  \<open>2^53 - 2\<close>, each is answered by one \<open>execute_reply\<close> between its busy and idle
  status; the first reply carries \<open>execution_count = n + 1\<close> and the second
  \<open>execution_count = n + 2\<close>, and the counter is incremented by each of them. The
  status of both replies is \<open>ok\<close>, whatever the executor reports: nothing in the
  statement depends on the outcome of \<open>executor_execute\<close>.
\<close>

theorem execution_count_sequence:
  assumes "handler srv = JupyterHandlerImpl_handler nd' C"
    and "fromRaw nd (key (connInfo srv)) raw1 = Inr msg1"
    and "get_prop (header msg1) ''msg_type'' = Inr (JStr ''execute_request'')"
    and "fromRaw nd (key (connInfo srv)) raw2 = Inr msg2"
    and "get_prop (header msg2) ''msg_type'' = Inr (JStr ''execute_request'')"
    and "handleShellMessage nd srv (a1, a2, a3) sock1 raw1 h = (None, h1, evs1)"
    and "handleShellMessage nd srv (b1, b2, b3) sock2 raw2 h1 = (None, h2, evs2)"
    and "execCount h + 2 \<le> 2 ^ 53"
  shows "\<exists>rep1 rep2.
       evs1 = [Send Iopub
                 (reply_to a1 (JStr ''status'') (JObj [(''execution_state'', JStr ''busy'')]) msg1)
                 (signAndSend_raw nd (key (connInfo srv))
                    (reply_to a1 (JStr ''status'') (JObj [(''execution_state'', JStr ''busy'')]) msg1)),
               Send sock1 rep1 (signAndSend_raw nd (key (connInfo srv)) rep1),
               Send Iopub
                 (reply_to a3 (JStr ''status'') (JObj [(''execution_state'', JStr ''idle'')]) msg1)
                 (signAndSend_raw nd (key (connInfo srv))
                    (reply_to a3 (JStr ''status'') (JObj [(''execution_state'', JStr ''idle'')]) msg1))]
     \<and> evs2 = [Send Iopub
                 (reply_to b1 (JStr ''status'') (JObj [(''execution_state'', JStr ''busy'')]) msg2)
                 (signAndSend_raw nd (key (connInfo srv))
                    (reply_to b1 (JStr ''status'') (JObj [(''execution_state'', JStr ''busy'')]) msg2)),
               Send sock2 rep2 (signAndSend_raw nd (key (connInfo srv)) rep2),
               Send Iopub
                 (reply_to b3 (JStr ''status'') (JObj [(''execution_state'', JStr ''idle'')]) msg2)
                 (signAndSend_raw nd (key (connInfo srv))
                    (reply_to b3 (JStr ''status'') (JObj [(''execution_state'', JStr ''idle'')]) msg2))]
     \<and> get_prop (header rep1) ''msg_type'' = Inr (JStr ''execute_reply'')
     \<and> get_prop (header rep2) ''msg_type'' = Inr (JStr ''execute_reply'')
     \<and> parent rep1 = header msg1 \<and> parent rep2 = header msg2
     \<and> content rep1 = JObj [(''status'', JStr ''ok''),
                             (''execution_count'', JNum (int (execCount h) + 1))]
     \<and> content rep2 = JObj [(''status'', JStr ''ok''),
                             (''execution_count'', JNum (int (execCount h) + 2))]
     \<and> execCount h1 = execCount h + 1 \<and> execCount h2 = execCount h + 2"
proof -
  have step: "\<exists>rep. evs =
          [Send Iopub
             (reply_to t1 (JStr ''status'') (JObj [(''execution_state'', JStr ''busy'')]) msg)
             (signAndSend_raw nd (key (connInfo srv))
                (reply_to t1 (JStr ''status'') (JObj [(''execution_state'', JStr ''busy'')]) msg)),
           Send sock rep (signAndSend_raw nd (key (connInfo srv)) rep),
           Send Iopub
             (reply_to t3 (JStr ''status'') (JObj [(''execution_state'', JStr ''idle'')]) msg)
             (signAndSend_raw nd (key (connInfo srv))
                (reply_to t3 (JStr ''status'') (JObj [(''execution_state'', JStr ''idle'')]) msg))]
        \<and> get_prop (header rep) ''msg_type'' = Inr (JStr ''execute_reply'')
        \<and> parent rep = header msg
        \<and> content rep = JObj [(''status'', JStr ''ok''),
                             (''execution_count'', JNum (int (execCount g) + 1))]
        \<and> execCount g' = execCount g + 1"
    if dec: "fromRaw nd (key (connInfo srv)) raw = Inr msg"
      and ty: "get_prop (header msg) ''msg_type'' = Inr (JStr ''execute_request'')"
      and run: "handleShellMessage nd srv (t1, t2, t3) sock raw g = (None, g', evs)"
      and bound: "execCount g < 2 ^ 53"
    for raw msg t1 t2 t3 sock g g' evs
  proof -
    from get_prop_InrD [OF ty]
    have hd: "header msg \<noteq> JNull" "header msg \<noteq> JUndefined"
      and ty': "js_prop (header msg) ''msg_type'' = JStr ''execute_request''"
      by simp_all
    from bound have incr: "js_incr (execCount g) = execCount g + 1"
      by (simp add: js_incr_def)
    obtain res g1 where ex: "JupyterHandlerImpl_handleExecute C (content msg) g = (res, g1)"
      by (cases "JupyterHandlerImpl_handleExecute C (content msg) g") auto
    have rt0: "route nd srv t2 sock msg g =
         (case (res, g1) of
            (Inl e, h') \<Rightarrow> (Some e, h', [])
          | (Inr c, h') \<Rightarrow>
              if c = JUndefined then (Some TypeError, h', [])
              else (None, h', [Send sock (reply_to t2 (JStr ''execute_reply'') c msg)
               (signAndSend_raw nd (key (connInfo srv))
                  (reply_to t2 (JStr ''execute_reply'') c msg))]))"
      by (simp add: route_eq [OF hd] ty' handle_cases [OF hd] assms(1)
          JupyterHandlerImpl_handler_def ex)
    from impl_handleExecute_cases [OF ex] show ?thesis
    proof
      assume "res = Inl TypeError \<and> g1 = g"
      then have "route nd srv t2 sock msg g = (Some TypeError, g, [])"
        by (simp add: rt0)
      with run show ?thesis
        unfolding handleShellMessage_Inr [OF dec hd] by simp
    next
      assume ok: "res = Inr (JObj [(''status'', JStr ''ok''),
                           (''execution_count'', JNum (int (js_incr (execCount g))))])
          \<and> execCount g1 = js_incr (execCount g)"
      let ?c = "JObj [(''status'', JStr ''ok''),
                           (''execution_count'', JNum (int (execCount g) + 1))]"
      let ?rep = "reply_to t2 (JStr ''execute_reply'') ?c msg"
      from ok incr have res: "res = Inr ?c" and g1: "execCount g1 = execCount g + 1"
        by simp_all
      have rt: "route nd srv t2 sock msg g
          = (None, g1, [Send sock ?rep (signAndSend_raw nd (key (connInfo srv)) ?rep)])"
        by (simp add: rt0 res)
      from run have "g' = g1" and "evs =
          [Send Iopub
             (reply_to t1 (JStr ''status'') (JObj [(''execution_state'', JStr ''busy'')]) msg)
             (signAndSend_raw nd (key (connInfo srv))
                (reply_to t1 (JStr ''status'') (JObj [(''execution_state'', JStr ''busy'')]) msg)),
           Send sock ?rep (signAndSend_raw nd (key (connInfo srv)) ?rep),
           Send Iopub
             (reply_to t3 (JStr ''status'') (JObj [(''execution_state'', JStr ''idle'')]) msg)
             (signAndSend_raw nd (key (connInfo srv))
                (reply_to t3 (JStr ''status'') (JObj [(''execution_state'', JStr ''idle'')]) msg))]"
        unfolding handleShellMessage_Inr [OF dec hd] rt by simp_all
      with g1 show ?thesis
        by (intro exI [of _ ?rep]) (simp add: reply_to_fields)
    qed
  qed
  from assms(8) have b1: "execCount h < 2 ^ 53"
    by simp
  from step [OF assms(2,3,6) b1] obtain rep1 where 1:
    "evs1 = [Send Iopub
                 (reply_to a1 (JStr ''status'') (JObj [(''execution_state'', JStr ''busy'')]) msg1)
                 (signAndSend_raw nd (key (connInfo srv))
                    (reply_to a1 (JStr ''status'') (JObj [(''execution_state'', JStr ''busy'')]) msg1)),
               Send sock1 rep1 (signAndSend_raw nd (key (connInfo srv)) rep1),
               Send Iopub
                 (reply_to a3 (JStr ''status'') (JObj [(''execution_state'', JStr ''idle'')]) msg1)
                 (signAndSend_raw nd (key (connInfo srv))
                    (reply_to a3 (JStr ''status'') (JObj [(''execution_state'', JStr ''idle'')]) msg1))]"
    "get_prop (header rep1) ''msg_type'' = Inr (JStr ''execute_reply'')"
    "parent rep1 = header msg1"
    "content rep1 = JObj [(''status'', JStr ''ok''),
                             (''execution_count'', JNum (int (execCount h) + 1))]"
    "execCount h1 = execCount h + 1"
    by blast
  from assms(8) 1(5) have b2: "execCount h1 < 2 ^ 53"
    by simp
  from step [OF assms(4,5,7) b2] obtain rep2 where 2:
    "evs2 = [Send Iopub
                 (reply_to b1 (JStr ''status'') (JObj [(''execution_state'', JStr ''busy'')]) msg2)
                 (signAndSend_raw nd (key (connInfo srv))
                    (reply_to b1 (JStr ''status'') (JObj [(''execution_state'', JStr ''busy'')]) msg2)),
               Send sock2 rep2 (signAndSend_raw nd (key (connInfo srv)) rep2),
               Send Iopub
                 (reply_to b3 (JStr ''status'') (JObj [(''execution_state'', JStr ''idle'')]) msg2)
                 (signAndSend_raw nd (key (connInfo srv))
                    (reply_to b3 (JStr ''status'') (JObj [(''execution_state'', JStr ''idle'')]) msg2))]"
    "get_prop (header rep2) ''msg_type'' = Inr (JStr ''execute_reply'')"
    "parent rep2 = header msg2"
    "content rep2 = JObj [(''status'', JStr ''ok''),
                             (''execution_count'', JNum (int (execCount h1) + 1))]"
    "execCount h2 = execCount h1 + 1"
    by blast
  from 1 2 show ?thesis
    by (intro exI [of _ rep1] exI [of _ rep2]) simp
qed

theorem execution_count_sequence_witness:
  "handler ex_srv = JupyterHandlerImpl_handler ex_node ex_collab
   \<and> fromRaw ex_node (key (connInfo ex_srv)) (ex_request ''execute_request'' ''{\"code\":\"boom\"}'')
       = Inr (ex_decoded ''execute_request'' ''{\"code\":\"boom\"}'' (JObj [(''code'', JStr ''boom'')]))
   \<and> get_prop (header (ex_decoded ''execute_request'' ''{\"code\":\"boom\"}''
                  (JObj [(''code'', JStr ''boom'')]))) ''msg_type'' = Inr (JStr ''execute_request'')
   \<and> fromRaw ex_node (key (connInfo ex_srv)) (ex_request ''execute_request'' ''{\"code\":\"1+1\"}'')
       = Inr (ex_decoded ''execute_request'' ''{\"code\":\"1+1\"}'' (JObj [(''code'', JStr ''1+1'')]))
   \<and> get_prop (header (ex_decoded ''execute_request'' ''{\"code\":\"1+1\"}''
                  (JObj [(''code'', JStr ''1+1'')]))) ''msg_type'' = Inr (JStr ''execute_request'')
   \<and> execCount (main ''tslab'' (0::nat)) + 2 \<le> 2 ^ 53
   \<and> (\<exists>rep1 rep2.
        handleShellMessage ex_node ex_srv (''a1'', ''a2'', ''a3'') Shell
          (ex_request ''execute_request'' ''{\"code\":\"boom\"}'') (main ''tslab'' (0::nat))
        = (None, \<lparr>ts = True, execCount = 1, engine = 1, console_log = []\<rparr>,
           [ex_status ''a1'' ''busy''
              (ex_decoded ''execute_request'' ''{\"code\":\"boom\"}'' (JObj [(''code'', JStr ''boom'')])),
            Send Shell rep1 (signAndSend_raw ex_node ''secret'' rep1),
            ex_status ''a3'' ''idle''
              (ex_decoded ''execute_request'' ''{\"code\":\"boom\"}'' (JObj [(''code'', JStr ''boom'')]))])
      \<and> handleShellMessage ex_node ex_srv (''b1'', ''b2'', ''b3'') Shell
          (ex_request ''execute_request'' ''{\"code\":\"1+1\"}'')
          \<lparr>ts = True, execCount = 1, engine = 1, console_log = []\<rparr>
        = (None, \<lparr>ts = True, execCount = 2, engine = 2, console_log = []\<rparr>,
           [ex_status ''b1'' ''busy''
              (ex_decoded ''execute_request'' ''{\"code\":\"1+1\"}'' (JObj [(''code'', JStr ''1+1'')])),
            Send Shell rep2 (signAndSend_raw ex_node ''secret'' rep2),
            ex_status ''b3'' ''idle''
              (ex_decoded ''execute_request'' ''{\"code\":\"1+1\"}'' (JObj [(''code'', JStr ''1+1'')]))])
      \<and> get_prop (header rep1) ''msg_type'' = Inr (JStr ''execute_reply'')
      \<and> get_prop (header rep2) ''msg_type'' = Inr (JStr ''execute_reply'')
      \<and> content rep1 = JObj [(''status'', JStr ''ok''), (''execution_count'', JNum 1)]
      \<and> content rep2 = JObj [(''status'', JStr ''ok''), (''execution_count'', JNum 2)])"
proof -
  let ?raw1 = "ex_request ''execute_request'' ''{\"code\":\"boom\"}''"
  let ?msg1 = "ex_decoded ''execute_request'' ''{\"code\":\"boom\"}'' (JObj [(''code'', JStr ''boom'')])"
  let ?raw2 = "ex_request ''execute_request'' ''{\"code\":\"1+1\"}''"
  let ?msg2 = "ex_decoded ''execute_request'' ''{\"code\":\"1+1\"}'' (JObj [(''code'', JStr ''1+1'')])"
  let ?h0 = "main ''tslab'' (0::nat)"
  let ?h1 = "\<lparr>ts = True, execCount = 1, engine = 1::nat, console_log = []\<rparr>"
  let ?h2 = "\<lparr>ts = True, execCount = 2, engine = 2::nat, console_log = []\<rparr>"
  have dec1: "fromRaw ex_node (key (connInfo ex_srv)) ?raw1 = Inr ?msg1"
    by (rule ex_decode) (simp_all add: ex_parse)
  have dec2: "fromRaw ex_node (key (connInfo ex_srv)) ?raw2 = Inr ?msg2"
    by (rule ex_decode) (simp_all add: ex_parse)
  have ty: "get_prop (header ?msg1) ''msg_type'' = Inr (JStr ''execute_request'')"
    "get_prop (header ?msg2) ''msg_type'' = Inr (JStr ''execute_request'')"
    by (simp_all add: ex_decoded_fields ex_header_props)
  have hd: "header ?msg1 \<noteq> JNull" "header ?msg1 \<noteq> JUndefined"
    "header ?msg2 \<noteq> JNull" "header ?msg2 \<noteq> JUndefined"
    by (simp_all add: ex_decoded_fields ex_header_props)
  have bound: "execCount ?h0 + 2 \<le> 2 ^ 53"
    by (simp add: ex_main)
  have rt1: "fst (route ex_node ex_srv ''a2'' Shell ?msg1 ?h0) = None"
    "fst (snd (route ex_node ex_srv ''a2'' Shell ?msg1 ?h0)) = ?h1"
    by (simp_all add: route_eq [OF hd(1,2)] handle_cases [OF hd(1,2)] ex_decoded_fields
        ex_header_props ex_handler JupyterHandlerImpl_handler_def
        JupyterHandlerImpl_handleExecute_def ex_collab_def ex_main js_incr_def)
  have rt2: "fst (route ex_node ex_srv ''b2'' Shell ?msg2 ?h1) = None"
    "fst (snd (route ex_node ex_srv ''b2'' Shell ?msg2 ?h1)) = ?h2"
    by (simp_all add: route_eq [OF hd(3,4)] handle_cases [OF hd(3,4)] ex_decoded_fields
        ex_header_props ex_handler JupyterHandlerImpl_handler_def
        JupyterHandlerImpl_handleExecute_def ex_collab_def js_incr_def)
  obtain evs1 where run1:
    "handleShellMessage ex_node ex_srv (''a1'', ''a2'', ''a3'') Shell ?raw1 ?h0 = (None, ?h1, evs1)"
    unfolding handleShellMessage_Inr [OF dec1 hd(1,2)] rt1 by simp
  obtain evs2 where run2:
    "handleShellMessage ex_node ex_srv (''b1'', ''b2'', ''b3'') Shell ?raw2 ?h1 = (None, ?h2, evs2)"
    unfolding handleShellMessage_Inr [OF dec2 hd(3,4)] rt2 by simp
  from execution_count_sequence [OF ex_handler dec1 ty(1) dec2 ty(2) run1 run2 bound]
  obtain rep1 rep2 where
    "evs1 = [Send Iopub
                 (reply_to ''a1'' (JStr ''status'') (JObj [(''execution_state'', JStr ''busy'')]) ?msg1)
                 (signAndSend_raw ex_node (key (connInfo ex_srv))
                    (reply_to ''a1'' (JStr ''status'') (JObj [(''execution_state'', JStr ''busy'')]) ?msg1)),
               Send Shell rep1 (signAndSend_raw ex_node (key (connInfo ex_srv)) rep1),
               Send Iopub
                 (reply_to ''a3'' (JStr ''status'') (JObj [(''execution_state'', JStr ''idle'')]) ?msg1)
                 (signAndSend_raw ex_node (key (connInfo ex_srv))
                    (reply_to ''a3'' (JStr ''status'') (JObj [(''execution_state'', JStr ''idle'')]) ?msg1))]"
    "evs2 = [Send Iopub
                 (reply_to ''b1'' (JStr ''status'') (JObj [(''execution_state'', JStr ''busy'')]) ?msg2)
                 (signAndSend_raw ex_node (key (connInfo ex_srv))
                    (reply_to ''b1'' (JStr ''status'') (JObj [(''execution_state'', JStr ''busy'')]) ?msg2)),
               Send Shell rep2 (signAndSend_raw ex_node (key (connInfo ex_srv)) rep2),
               Send Iopub
                 (reply_to ''b3'' (JStr ''status'') (JObj [(''execution_state'', JStr ''idle'')]) ?msg2)
                 (signAndSend_raw ex_node (key (connInfo ex_srv))
                    (reply_to ''b3'' (JStr ''status'') (JObj [(''execution_state'', JStr ''idle'')]) ?msg2))]"
    "get_prop (header rep1) ''msg_type'' = Inr (JStr ''execute_reply'')"
    "get_prop (header rep2) ''msg_type'' = Inr (JStr ''execute_reply'')"
    "content rep1 = JObj [(''status'', JStr ''ok''),
        (''execution_count'', JNum (int (execCount ?h0) + 1))]"
    "content rep2 = JObj [(''status'', JStr ''ok''),
        (''execution_count'', JNum (int (execCount ?h0) + 2))]"
    by blast
  then have
    "evs1 = [ex_status ''a1'' ''busy'' ?msg1,
        Send Shell rep1 (signAndSend_raw ex_node ''secret'' rep1),
        ex_status ''a3'' ''idle'' ?msg1]"
    "evs2 = [ex_status ''b1'' ''busy'' ?msg2,
        Send Shell rep2 (signAndSend_raw ex_node ''secret'' rep2),
        ex_status ''b3'' ''idle'' ?msg2]"
    "get_prop (header rep1) ''msg_type'' = Inr (JStr ''execute_reply'')"
    "get_prop (header rep2) ''msg_type'' = Inr (JStr ''execute_reply'')"
    "content rep1 = JObj [(''status'', JStr ''ok''), (''execution_count'', JNum 1)]"
    "content rep2 = JObj [(''status'', JStr ''ok''), (''execution_count'', JNum 2)]"
    by (simp_all add: ex_key ex_main ex_status_def)
  with run1 run2 have "\<exists>rep1 rep2.
        handleShellMessage ex_node ex_srv (''a1'', ''a2'', ''a3'') Shell ?raw1 ?h0
        = (None, ?h1,
           [ex_status ''a1'' ''busy'' ?msg1,
            Send Shell rep1 (signAndSend_raw ex_node ''secret'' rep1),
            ex_status ''a3'' ''idle'' ?msg1])
      \<and> handleShellMessage ex_node ex_srv (''b1'', ''b2'', ''b3'') Shell ?raw2 ?h1
        = (None, ?h2,
           [ex_status ''b1'' ''busy'' ?msg2,
            Send Shell rep2 (signAndSend_raw ex_node ''secret'' rep2),
            ex_status ''b3'' ''idle'' ?msg2])
      \<and> get_prop (header rep1) ''msg_type'' = Inr (JStr ''execute_reply'')
      \<and> get_prop (header rep2) ''msg_type'' = Inr (JStr ''execute_reply'')
      \<and> content rep1 = JObj [(''status'', JStr ''ok''), (''execution_count'', JNum 1)]
      \<and> content rep2 = JObj [(''status'', JStr ''ok''), (''execution_count'', JNum 2)]"
    by blast
  then show ?thesis
    by (intro conjI ex_handler dec1 ty dec2 bound)
qed

text \<open>
  Claim C6 as stated fails in two ways. The executor of the examples reports that the
  code \<open>boom\<close> did not run successfully, and the reply content is still \<open>status = ok\<close>,
  with the counter incremented from 0 to 1. And the counts are not always strictly
  increasing: from the counter \<open>2^53 - 1 = 9007199254740991\<close>, two calls in sequence
  both answer \<open>execution_count = 9007199254740992\<close>.
\<close>

theorem execute_status_counterexample:
  "executor_execute ex_collab (JStr ''boom'') 0 = (False, 1)
   \<and> JupyterHandlerImpl_handleExecute ex_collab (JObj [(''code'', JStr ''boom'')])
        (main ''tslab'' (0::nat))
     = (Inr (JObj [(''status'', JStr ''ok''), (''execution_count'', JNum 1)]),
        \<lparr>ts = True, execCount = 1, engine = 1, console_log = []\<rparr>)
   \<and> (9007199254740992::nat) = 2 ^ 53
   \<and> JupyterHandlerImpl_handleExecute ex_collab (JObj [(''code'', JStr ''1+1'')])
        \<lparr>ts = True, execCount = 9007199254740991, engine = 0::nat, console_log = []\<rparr>
     = (Inr (JObj [(''status'', JStr ''ok''), (''execution_count'', JNum 9007199254740992)]),
        \<lparr>ts = True, execCount = 9007199254740992, engine = 1, console_log = []\<rparr>)
   \<and> JupyterHandlerImpl_handleExecute ex_collab (JObj [(''code'', JStr ''1+1'')])
        \<lparr>ts = True, execCount = 9007199254740992, engine = 1::nat, console_log = []\<rparr>
     = (Inr (JObj [(''status'', JStr ''ok''), (''execution_count'', JNum 9007199254740992)]),
        \<lparr>ts = True, execCount = 9007199254740992, engine = 2, console_log = []\<rparr>)"
  by (simp add: ex_collab_def JupyterHandlerImpl_handleExecute_def ex_main js_incr_def)

section \<open>Decoding\<close>

text \<open>
  Claim C4. \<open>fromRaw\<close> parses the JSON body frames (frames 3 to 6) before it verifies
  the signature. For every frame batch in which some body frame is not valid JSON,
  \<open>fromRaw\<close> throws the \<open>SyntaxError\<close> of \<open>JSON.parse\<close>; the outcome is the same under
  every hash function and every key, so no HMAC enters it; and \<open>handleShellMessage\<close>
  ends with that exception, with no event at all (no reply, no busy or idle status) and
  the handler's state untouched.
\<close>

theorem malformed_frame_dropped:
  assumes "3 \<le> i" and "i \<le> 6" and "i < length raw" and "\<not> valid_JSON_frame nd raw i"
  shows "fromRaw nd k raw = Inl SyntaxError
     \<and> fromRaw (nd\<lparr>hmac_sha256_hex := f\<rparr>) k' raw = Inl SyntaxError
     \<and> handleShellMessage nd srv clock sock raw h = (Some SyntaxError, h, [])"
proof -
  have "fromRaw nd k'' raw = Inl SyntaxError" for k''
    using assms by (rule fromRaw_invalid_frame)
  moreover have "fromRaw (nd\<lparr>hmac_sha256_hex := f\<rparr>) k' raw = Inl SyntaxError"
    using assms by (intro fromRaw_invalid_frame) simp_all
  ultimately show ?thesis
    by (simp add: handleShellMessage_Inl)
qed

theorem malformed_frame_dropped_witness:
  "(3::nat) \<le> 4 \<and> (4::nat) \<le> 6
   \<and> 4 < length (map Buffer_from
            [''client'', ''<IDS|MSG>'', ''00'', ex_header_text ''execute_request'',
             ''{not json'', ''{}'', ''{}''])
   \<and> \<not> valid_JSON_frame ex_node
         (map Buffer_from
            [''client'', ''<IDS|MSG>'', ''00'', ex_header_text ''execute_request'',
             ''{not json'', ''{}'', ''{}'']) 4
   \<and> fromRaw ex_node ''secret''
         (map Buffer_from
            [''client'', ''<IDS|MSG>'', ''00'', ex_header_text ''execute_request'',
             ''{not json'', ''{}'', ''{}'']) = Inl SyntaxError
   \<and> fromRaw (ex_node\<lparr>hmac_sha256_hex := (\<lambda>k d. ''00'')\<rparr>) ''other''
         (map Buffer_from
            [''client'', ''<IDS|MSG>'', ''00'', ex_header_text ''execute_request'',
             ''{not json'', ''{}'', ''{}'']) = Inl SyntaxError
   \<and> handleShellMessage ex_node ex_srv (''t1'', ''t2'', ''t3'') Shell
         (map Buffer_from
            [''client'', ''<IDS|MSG>'', ''00'', ex_header_text ''execute_request'',
             ''{not json'', ''{}'', ''{}'']) (main ''tslab'' (0::nat))
       = (Some SyntaxError, main ''tslab'' 0, [])"
proof -
  let ?raw = "map Buffer_from
            [''client'', ''<IDS|MSG>'', ''00'', ex_header_text ''execute_request'',
             ''{not json'', ''{}'', ''{}'']"
  have a: "(3::nat) \<le> 4" "(4::nat) \<le> 6" "4 < length ?raw"
    by simp_all
  have b: "\<not> valid_JSON_frame ex_node ?raw 4"
    by (simp add: valid_JSON_frame_def ex_parse)
  from malformed_frame_dropped [OF a b, of "''secret''" "\<lambda>k d. ''00''" "''other''" ex_srv
      "(''t1'', ''t2'', ''t3'')" Shell "main ''tslab'' (0::nat)"] a b
  show ?thesis
    by blast
qed

text \<open>
  Claim C1, as amended. \<open>verifyHmac\<close> computes the HMAC tag of the bytes of the frames
  it is given, in their order, under the key, and throws
  \<open>invalid hmac <received>; want <expected>\<close> when the received signature differs from
  it. \<open>fromRaw\<close> calls it on the body frames \<open>raw.slice(3)\<close> after parsing: a batch
  that decodes has a signature frame equal to the tag of its body frames, and a batch of
  at least seven frames whose four JSON body frames parse and whose signature frame
  differs from that tag fails with the error naming both. For every batch whatsoever,
  if the signature frame is missing or differs from the tag, \<open>fromRaw\<close> throws and
  \<open>handleShellMessage\<close> ends with that exception, without any event (no status, no
  reply) and with the handler's state untouched.
\<close>

theorem signature_check:
  "verifyHmac nd k hm rest =
     (if hm = hmac_sha256_hex nd k (concat (map bytes_of rest)) then Inr ()
      else Inl (Error (''invalid hmac '' @ hm @ ''; want ''
                  @ hmac_sha256_hex nd k (concat (map bytes_of rest)))))
   \<and> (fromRaw nd k raw = Inr m \<longrightarrow>
        Buffer_toString nd (raw ! 2) = body_tag nd k raw \<and> hmac m = body_tag nd k raw)
   \<and> (7 \<le> length raw \<and> (\<forall>i \<in> {3, 4, 5, 6}. valid_JSON_frame nd raw i)
        \<and> Buffer_toString nd (raw ! 2) \<noteq> body_tag nd k raw \<longrightarrow>
        fromRaw nd k raw
          = Inl (Error (''invalid hmac '' @ Buffer_toString nd (raw ! 2) @ ''; want ''
                   @ body_tag nd k raw)))
   \<and> ((length raw \<le> 2 \<or> Buffer_toString nd (raw ! 2) \<noteq> body_tag nd (key (connInfo srv)) raw)
        \<longrightarrow>
        (\<exists>e. fromRaw nd (key (connInfo srv)) raw = Inl e
           \<and> handleShellMessage nd srv clock sock raw h = (Some e, h, [])))"
proof (intro conjI impI)
  show "verifyHmac nd k hm rest =
     (if hm = hmac_sha256_hex nd k (concat (map bytes_of rest)) then Inr ()
      else Inl (Error (''invalid hmac '' @ hm @ ''; want ''
                  @ hmac_sha256_hex nd k (concat (map bytes_of rest)))))"
    by (auto simp: verifyHmac_eq)
next
  assume "fromRaw nd k raw = Inr m"
  from fromRaw_InrD [OF this]
  show "Buffer_toString nd (raw ! 2) = body_tag nd k raw" and "hmac m = body_tag nd k raw"
    by simp_all
next
  assume a: "7 \<le> length raw \<and> (\<forall>i \<in> {3, 4, 5, 6}. valid_JSON_frame nd raw i)
        \<and> Buffer_toString nd (raw ! 2) \<noteq> body_tag nd k raw"
  then obtain hdr pa md co where
    "JSON_parse nd (Buffer_toString nd (raw ! 3)) = Some hdr"
    "JSON_parse nd (Buffer_toString nd (raw ! 4)) = Some pa"
    "JSON_parse nd (Buffer_toString nd (raw ! 5)) = Some md"
    "JSON_parse nd (Buffer_toString nd (raw ! 6)) = Some co"
    by (auto simp: valid_JSON_frame_def)
  with a show "fromRaw nd k raw
          = Inl (Error (''invalid hmac '' @ Buffer_toString nd (raw ! 2) @ ''; want ''
                   @ body_tag nd k raw))"
    by (auto simp: fromRaw_parsed)
next
  assume a: "length raw \<le> 2
      \<or> Buffer_toString nd (raw ! 2) \<noteq> body_tag nd (key (connInfo srv)) raw"
  have "\<exists>e. fromRaw nd (key (connInfo srv)) raw = Inl e"
  proof (cases "fromRaw nd (key (connInfo srv)) raw")
    case (Inl e)
    then show ?thesis by simp
  next
    case (Inr m)
    from fromRaw_InrD [OF this] a show ?thesis by simp
  qed
  then show "\<exists>e. fromRaw nd (key (connInfo srv)) raw = Inl e
           \<and> handleShellMessage nd srv clock sock raw h = (Some e, h, [])"
    by (auto simp: handleShellMessage_Inl)
qed

theorem signature_check_witness:
  "fromRaw ex_node ''secret''
      (ex_raw (ex_sig (ex_header_text ''execute_request'') ''{}'')
         (ex_header_text ''execute_request'') ''{}'')
     = Inr (ex_msg (ex_sig (ex_header_text ''execute_request'') ''{}'')
              (ex_header ''execute_request'') (JObj []))
   \<and> Buffer_toString ex_node
        (ex_raw (ex_sig (ex_header_text ''execute_request'') ''{}'')
           (ex_header_text ''execute_request'') ''{}'' ! 2)
     = body_tag ex_node ''secret''
         (ex_raw (ex_sig (ex_header_text ''execute_request'') ''{}'')
            (ex_header_text ''execute_request'') ''{}'')
   \<and> 7 \<le> length (ex_raw ''00'' (ex_header_text ''execute_request'') ''{}'')
   \<and> valid_JSON_frame ex_node (ex_raw ''00'' (ex_header_text ''execute_request'') ''{}'') 3
   \<and> valid_JSON_frame ex_node (ex_raw ''00'' (ex_header_text ''execute_request'') ''{}'') 4
   \<and> valid_JSON_frame ex_node (ex_raw ''00'' (ex_header_text ''execute_request'') ''{}'') 5
   \<and> valid_JSON_frame ex_node (ex_raw ''00'' (ex_header_text ''execute_request'') ''{}'') 6
   \<and> Buffer_toString ex_node (ex_raw ''00'' (ex_header_text ''execute_request'') ''{}'' ! 2)
       \<noteq> body_tag ex_node ''secret'' (ex_raw ''00'' (ex_header_text ''execute_request'') ''{}'')
   \<and> fromRaw ex_node ''secret'' (ex_raw ''00'' (ex_header_text ''execute_request'') ''{}'')
     = Inl (Error (''invalid hmac 00; want '' @ ex_sig (ex_header_text ''execute_request'') ''{}''))
   \<and> handleShellMessage ex_node ex_srv (''t1'', ''t2'', ''t3'') Shell
        (ex_raw ''00'' (ex_header_text ''execute_request'') ''{}'') (main ''tslab'' (0::nat))
     = (Some (Error (''invalid hmac 00; want '' @ ex_sig (ex_header_text ''execute_request'') ''{}'')),
        main ''tslab'' 0, [])"
proof -
  let ?ht = "ex_header_text ''execute_request''"
  let ?ok = "ex_raw (ex_sig ?ht ''{}'') ?ht ''{}''"
  let ?msg = "ex_msg (ex_sig ?ht ''{}'') (ex_header ''execute_request'') (JObj [])"
  let ?bad = "ex_raw ''00'' ?ht ''{}''"
  let ?h0 = "main ''tslab'' (0::nat)"
  let ?clk = "(''t1'', ''t2'', ''t3'')"
  have dec: "fromRaw ex_node ''secret'' ?ok = Inr ?msg"
    by (simp add: ex_fromRaw ex_parse)
  have len: "7 \<le> length ?bad"
    by (simp add: ex_raw_def)
  have val: "valid_JSON_frame ex_node ?bad 3" "valid_JSON_frame ex_node ?bad 4"
    "valid_JSON_frame ex_node ?bad 5" "valid_JSON_frame ex_node ?bad 6"
    by (simp_all add: valid_JSON_frame_def ex_raw_def ex_parse)
  have ne: "Buffer_toString ex_node (?bad ! 2) \<noteq> body_tag ex_node ''secret'' ?bad"
    by (simp add: ex_body_tag) (simp add: ex_raw_def ex_sig_def ex_hmac_def)
  have "Buffer_toString ex_node (?ok ! 2) = body_tag ex_node ''secret'' ?ok"
    using signature_check [of ex_node "''secret''" "''00''" "[]" ?ok ?msg ex_srv ?clk Shell ?h0] dec
    by blast
  moreover have err: "fromRaw ex_node ''secret'' ?bad
      = Inl (Error (''invalid hmac '' @ Buffer_toString ex_node (?bad ! 2) @ ''; want ''
               @ body_tag ex_node ''secret'' ?bad))"
    using signature_check [of ex_node "''secret''" "''00''" "[]" ?bad ?msg ex_srv ?clk Shell ?h0]
      len val ne
    by blast
  moreover have "\<exists>e. fromRaw ex_node (key (connInfo ex_srv)) ?bad = Inl e
      \<and> handleShellMessage ex_node ex_srv ?clk Shell ?bad ?h0 = (Some e, ?h0, [])"
    using signature_check [of ex_node "''secret''" "''00''" "[]" ?bad ?msg ex_srv ?clk Shell ?h0]
      ne
    by (simp add: ex_key)
  then have "handleShellMessage ex_node ex_srv ?clk Shell ?bad ?h0
      = (Some (Error (''invalid hmac '' @ Buffer_toString ex_node (?bad ! 2) @ ''; want ''
                 @ body_tag ex_node ''secret'' ?bad)),
         ?h0, [])"
    using err by (auto simp: ex_key)
  moreover have "Buffer_toString ex_node (?bad ! 2) = ''00''"
    by (simp add: ex_raw_def)
  ultimately show ?thesis
    using dec len val ne by (simp add: ex_body_tag)
qed

text \<open>
  Claim C1 as stated fails on a batch whose signature frame differs from the tag and
  whose content frame is not valid JSON: \<open>fromRaw\<close> throws the \<open>SyntaxError\<close> of
  \<open>JSON.parse\<close>, not the error naming the received and the expected tag.
\<close>

theorem signature_check_counterexample:
  "fromRaw ex_node ''secret'' (ex_raw ''00'' (ex_header_text ''execute_request'') ''{not json'')
     = Inl SyntaxError
   \<and> Buffer_toString ex_node
        (ex_raw ''00'' (ex_header_text ''execute_request'') ''{not json'' ! 2)
       \<noteq> body_tag ex_node ''secret''
            (ex_raw ''00'' (ex_header_text ''execute_request'') ''{not json'')
   \<and> fromRaw ex_node ''secret'' (ex_raw ''00'' (ex_header_text ''execute_request'') ''{not json'')
       \<noteq> Inl (Error (''invalid hmac ''
                 @ Buffer_toString ex_node
                     (ex_raw ''00'' (ex_header_text ''execute_request'') ''{not json'' ! 2)
                 @ ''; want ''
                 @ body_tag ex_node ''secret''
                     (ex_raw ''00'' (ex_header_text ''execute_request'') ''{not json'')))"
proof -
  let ?raw = "ex_raw ''00'' (ex_header_text ''execute_request'') ''{not json''"
  have "\<not> valid_JSON_frame ex_node ?raw 6"
    by (simp add: valid_JSON_frame_def ex_raw_def ex_parse)
  moreover have "6 < length ?raw"
    by (simp add: ex_raw_def)
  ultimately have "fromRaw ex_node ''secret'' ?raw = Inl SyntaxError"
    by (intro fromRaw_invalid_frame [of 6]) simp_all
  moreover have "Buffer_toString ex_node (?raw ! 2) \<noteq> body_tag ex_node ''secret'' ?raw"
    by (simp add: ex_body_tag) (simp add: ex_raw_def ex_sig_def ex_hmac_def)
  ultimately show ?thesis
    by simp
qed

section \<open>Round trip\<close>

text \<open>
  Claim C5, as amended. For every message \<open>m\<close> without extra buffers whose header,
  parent header, metadata and content are read back by \<open>JSON.parse\<close> from their
  \<open>JSON.stringify\<close> text, and every key, decoding the frames \<open>signAndSend\<close> puts on the
  wire for \<open>m\<close> yields \<open>m\<close> with its signature replaced by the signature frame, and
  that signature verifies against the body frames under the same key.
\<close>

theorem roundtrip_without_extra:
  assumes "JSON_parse nd (JSON_stringify nd (header m)) = Some (header m)"
    and "JSON_parse nd (JSON_stringify nd (parent m)) = Some (parent m)"
    and "JSON_parse nd (JSON_stringify nd (metadata m)) = Some (metadata m)"
    and "JSON_parse nd (JSON_stringify nd (content m)) = Some (content m)"
    and "extra m = []"
  shows "fromRaw nd k (map Buffer_from (signAndSend_raw nd k m))
       = Inr (m\<lparr>hmac := signAndSend_raw nd k m ! 2\<rparr>)
     \<and> verifyHmac nd k (signAndSend_raw nd k m ! 2)
         (drop 3 (map Buffer_from (signAndSend_raw nd k m))) = Inr ()"
proof
  from fromRaw_signAndSend_raw [OF assms(1-4)] assms(5)
  show "fromRaw nd k (map Buffer_from (signAndSend_raw nd k m))
      = Inr (m\<lparr>hmac := signAndSend_raw nd k m ! 2\<rparr>)"
    by simp
  have bytes: "bytes_of \<circ> (Buffer_from \<circ> f) = f" for f
    by (simp add: fun_eq_iff)
  show "verifyHmac nd k (signAndSend_raw nd k m ! 2)
         (drop 3 (map Buffer_from (signAndSend_raw nd k m))) = Inr ()"
    by (simp add: verifyHmac_eq signAndSend_raw_eq bytes)
qed

theorem roundtrip_without_extra_witness:
  "JSON_parse ex_node (JSON_stringify ex_node (ex_header ''execute_request''))
     = Some (ex_header ''execute_request'')
   \<and> JSON_parse ex_node (JSON_stringify ex_node (JObj [])) = Some (JObj [])
   \<and> JSON_parse ex_node (JSON_stringify ex_node (JObj [(''code'', JStr ''1+1'')]))
     = Some (JObj [(''code'', JStr ''1+1'')])
   \<and> extra (ex_msg [] (ex_header ''execute_request'') (JObj [(''code'', JStr ''1+1'')])) = []
   \<and> fromRaw ex_node ''secret''
       (map Buffer_from
          (signAndSend_raw ex_node ''secret''
             (ex_msg [] (ex_header ''execute_request'') (JObj [(''code'', JStr ''1+1'')]))))
     = Inr (ex_msg (ex_sig (ex_header_text ''execute_request'') ''{\"code\":\"1+1\"}'')
              (ex_header ''execute_request'') (JObj [(''code'', JStr ''1+1'')]))
   \<and> verifyHmac ex_node ''secret'' (ex_sig (ex_header_text ''execute_request'') ''{\"code\":\"1+1\"}'')
       (drop 3 (map Buffer_from
          (signAndSend_raw ex_node ''secret''
             (ex_msg [] (ex_header ''execute_request'') (JObj [(''code'', JStr ''1+1'')])))))
     = Inr ()"
proof -
  let ?m = "ex_msg [] (ex_header ''execute_request'') (JObj [(''code'', JStr ''1+1'')])"
  have st: "JSON_stringify ex_node = js_text"
    by (simp add: ex_node_def)
  have tx: "js_text (JObj []) = ''{}''"
    "js_text (JObj [(''code'', JStr ''1+1'')]) = ''{\"code\":\"1+1\"}''"
    "js_text (ex_header ''execute_request'') = ex_header_text ''execute_request''"
    by (simp_all add: quote_def ex_header_text_def)
  have p: "JSON_parse ex_node (JSON_stringify ex_node (ex_header ''execute_request''))
     = Some (ex_header ''execute_request'')"
    "JSON_parse ex_node (JSON_stringify ex_node (JObj [])) = Some (JObj [])"
    "JSON_parse ex_node (JSON_stringify ex_node (JObj [(''code'', JStr ''1+1'')]))
     = Some (JObj [(''code'', JStr ''1+1'')])"
    unfolding st tx by (simp_all add: ex_parse)
  have f: "header ?m = ex_header ''execute_request''" "parent ?m = JObj []"
    "metadata ?m = JObj []" "content ?m = JObj [(''code'', JStr ''1+1'')]"
    by (simp_all add: ex_msg_def)
  have h: "JSON_parse ex_node (JSON_stringify ex_node (header ?m)) = Some (header ?m)"
    "JSON_parse ex_node (JSON_stringify ex_node (parent ?m)) = Some (parent ?m)"
    "JSON_parse ex_node (JSON_stringify ex_node (metadata ?m)) = Some (metadata ?m)"
    "JSON_parse ex_node (JSON_stringify ex_node (content ?m)) = Some (content ?m)"
    "extra ?m = []"
    unfolding f by (simp_all add: p ex_msg_def)
  have tag: "signAndSend_raw ex_node ''secret'' ?m ! 2
      = ex_sig (ex_header_text ''execute_request'') ''{\"code\":\"1+1\"}''"
    unfolding signAndSend_raw_eq f st tx
    by (simp add: ex_sig_def ex_msg_def) (simp add: ex_node_def)
  have upd: "?m\<lparr>hmac := ex_sig (ex_header_text ''execute_request'') ''{\"code\":\"1+1\"}''\<rparr>
      = ex_msg (ex_sig (ex_header_text ''execute_request'') ''{\"code\":\"1+1\"}'')
          (ex_header ''execute_request'') (JObj [(''code'', JStr ''1+1'')])"
    by (simp add: ex_msg_def)
  from roundtrip_without_extra [OF h, of "''secret''"]
  have "fromRaw ex_node ''secret'' (map Buffer_from (signAndSend_raw ex_node ''secret'' ?m))
       = Inr (ex_msg (ex_sig (ex_header_text ''execute_request'') ''{\"code\":\"1+1\"}'')
          (ex_header ''execute_request'') (JObj [(''code'', JStr ''1+1'')]))"
    and "verifyHmac ex_node ''secret'' (ex_sig (ex_header_text ''execute_request'') ''{\"code\":\"1+1\"}'')
         (drop 3 (map Buffer_from (signAndSend_raw ex_node ''secret'' ?m))) = Inr ()"
    unfolding tag upd by (rule conjunct1, rule conjunct2)
  then show ?thesis
    by (intro conjI p h(5))
qed

text \<open>
  Claim C5 as stated fails on a message with an extra buffer: \<open>signAndSend\<close> sends the
  \<open>JSON.stringify\<close> text of the buffer \<open>hi\<close>, and \<open>fromRaw\<close> returns the frame that
  holds this text as the extra buffer, which is not the buffer \<open>hi\<close>.
\<close>

theorem roundtrip_extra_counterexample:
  "fromRaw ex_node ''secret''
       (map Buffer_from
          (signAndSend_raw ex_node ''secret''
             ((ex_msg [] (ex_header ''execute_request'') (JObj []))
                \<lparr>extra := [Buffer_from ''hi'']\<rparr>)))
     = Inr ((ex_msg (ex_sig (ex_header_text ''execute_request'')
                       (''{}'' @ ''{\"type\":\"Buffer\",\"data\":[104,105]}''))
               (ex_header ''execute_request'') (JObj []))
            \<lparr>extra := [Buffer_from ''{\"type\":\"Buffer\",\"data\":[104,105]}'']\<rparr>)
   \<and> extra ((ex_msg [] (ex_header ''execute_request'') (JObj []))
               \<lparr>extra := [Buffer_from ''hi'']\<rparr>)
       \<noteq> [Buffer_from ''{\"type\":\"Buffer\",\"data\":[104,105]}'']"
proof -
  let ?m = "(ex_msg [] (ex_header ''execute_request'') (JObj []))\<lparr>extra := [Buffer_from ''hi'']\<rparr>"
  have st: "JSON_stringify ex_node = js_text" "JSON_stringify_Buffer ex_node = buffer_text"
    by (simp_all add: ex_node_def)
  have tx: "js_text (JObj []) = ''{}''"
    "js_text (ex_header ''execute_request'') = ex_header_text ''execute_request''"
    "buffer_text (Buffer_from ''hi'') = ''{\"type\":\"Buffer\",\"data\":[104,105]}''"
    by (simp_all add: buffer_text_def show_nat.simps ex_header_text_def)
  have f: "header ?m = ex_header ''execute_request''" "parent ?m = JObj []"
    "metadata ?m = JObj []" "content ?m = JObj []" "extra ?m = [Buffer_from ''hi'']"
    by (simp_all add: ex_msg_def)
  have "fromRaw ex_node ''secret'' (map Buffer_from (signAndSend_raw ex_node ''secret'' ?m))
     = Inr (?m\<lparr>hmac := signAndSend_raw ex_node ''secret'' ?m ! 2,
              extra := map (\<lambda>b. Buffer_from (JSON_stringify_Buffer ex_node b)) (extra ?m)\<rparr>)"
    by (rule fromRaw_signAndSend_raw; unfold f st tx) (simp_all add: ex_parse)
  moreover have "signAndSend_raw ex_node ''secret'' ?m ! 2
      = ex_sig (ex_header_text ''execute_request'')
          (''{}'' @ ''{\"type\":\"Buffer\",\"data\":[104,105]}'')"
    unfolding signAndSend_raw_eq f st tx
    by (simp add: ex_sig_def tx(3)) (simp add: ex_node_def)
  ultimately show ?thesis
    unfolding f st tx by (simp add: ex_msg_def tx(3))
qed

end
